theory Spec2Isabelle
  imports Main "HOL-Library.Multiset" "HOL-Library.AList"
begin

text \<open>
  A shallow embedding of the two React components of the prompt builder
  (\<open>PromptBuilder\<close> and \<open>PromptItem\<close>): their handlers as functions from the props, the
  component state and the event to the new state and the list of effects (callback
  invocations, toasts, \<open>preventDefault\<close>), and the parts of their render output that
  depend on the data (the picker dropdown and the history dialog).
\<close>

section \<open>Data model\<close>

text \<open>
  The components read their data through props whose TypeScript declarations live in
  \<open>@/types/prompts\<close>. Arrays are JavaScript objects: a \<open>history_log\<close> field holds
  a reference to an array, and \<open>Array.prototype.sort\<close> works in place on the array it is
  called on. References to history arrays are therefore addresses into an explicit store
  of arrays; everything else is data the code only reads, and is kept by value.
\<close>

type_synonym addr = nat

text \<open>
  Modelled from the spec: the declaration of \<open>HistoryLogEntry\<close> in \<open>@/types/prompts\<close> is
  not part of the component files; the record has the two fields the components read
  (\<open>timestamp\<close> and \<open>text\<close>, here \<open>entry_text\<close>).
\<close>

record HistoryLogEntry =
  timestamp :: string
  entry_text :: string

text \<open>
  Modelled from the spec: the declaration of \<open>PromptFragment\<close> in \<open>@/types/prompts\<close> is
  not part of the component files; the record has the fields the handlers and the picker read
  (\<open>id\<close>, \<open>text\<close>, \<open>deprecated\<close>, \<open>history_log\<close>). The remaining fields (\<open>tags\<close>,
  \<open>uses\<close>, \<open>last_used\<close>, \<open>created_by\<close>, \<open>length\<close>, \<open>associated_model_type\<close>) are only
  printed by \<open>PromptItem\<close>.
\<close>

record PromptFragment =
  frag_id :: string
  frag_text :: string
  deprecated :: bool
  history_log :: addr

text \<open>
  Modelled from the spec: the declarations of \<open>PrefixesData\<close>, \<open>SuffixesData\<close>,
  \<open>PhasesConfig\<close> and \<open>PhasePromptsData\<close> in \<open>@/types/prompts\<close> are not part of the
  component files; the records have the fields \<open>PromptBuilder\<close> reads.
\<close>

record PrefixesData =
  prefixes :: "PromptFragment list"

record SuffixesData =
  suffixes :: "PromptFragment list"

record PhaseConfig =
  phase_id :: string
  phase_name :: string

record PhasesConfig =
  phases :: "PhaseConfig list"

record PhasePromptsData =
  prompts :: "PromptFragment list"

text \<open>
  The data \<open>PromptBuilder\<close> and \<open>PromptItem\<close> receive through props.
  \<open>phasePromptsMap\<close> is a \<open>Record<string, PhasePromptsData>\<close>: an association list, read
  with \<open>map_of\<close> (the first binding of a key is the object's property).
  \<open>arrays\<close> is the store of history arrays, an address being an index into it.
\<close>

record prompt_data =
  prefixesData :: PrefixesData
  suffixesData :: SuffixesData
  phasesConfig :: PhasesConfig
  phasePromptsMap :: "(string \<times> PhasePromptsData) list"
  arrays :: "HistoryLogEntry list list"

section \<open>Effects: callbacks, toasts, exceptions\<close>

text \<open>
  A \<open>Promise<boolean>\<close> returned by an injected callback either resolves to a value or
  rejects with an error. A callback that throws before returning its promise reaches the
  same \<open>catch\<close> block and is a rejection too.
\<close>

datatype 'a promise = Resolves 'a | Rejects string

text \<open>
  Modelled from the spec: the argument of the \<open>onCreate...\<close> callbacks is an
  \<open>Omit<PromptFragment, "id" | "length" | "history_log">\<close>, a type declared with
  \<open>PromptFragment\<close> outside the component files; the record has the remaining fields of
  the \<open>PromptFragment\<close> record above.
\<close>

record NewPrompt =
  new_text :: string
  new_deprecated :: bool

text \<open>
  Every invocation of a callback prop, with its arguments. The last three are the props of
  \<open>PromptItem\<close>, the others those of \<open>PromptBuilder\<close>.
\<close>

datatype call =
    OnGenerate
  | OnTidyAndGenerate
  | OnSelectPrefix PromptFragment
  | OnSelectSuffix PromptFragment
  | OnSelectPhasePrompt PromptFragment string
  | OnUpdatePrefix string string bool
  | OnUpdateSuffix string string bool
  | OnUpdatePhasePrompt string string string bool
  | OnRestorePrefix string HistoryLogEntry
  | OnRestoreSuffix string HistoryLogEntry
  | OnRestorePhasePrompt string string HistoryLogEntry
  | OnMainTextChange string
  | OnDeprecatePrefix string
  | OnDeprecateSuffix string
  | OnDeprecatePhasePrompt string string
  | OnCreatePrefix NewPrompt
  | OnCreateSuffix NewPrompt
  | OnCreatePhasePrompt string NewPrompt
  | OnSelect PromptFragment
  | OnUpdate string string bool
  | OnRestoreVersion string HistoryLogEntry

text \<open>
  An object that the code could change in place: a \<open>PromptFragment\<close> (by its id), one of
  the fragment arrays (\<open>prefixes\<close>, \<open>suffixes\<close>, a phase's \<open>prompts\<close>, by name), or an
  array of history entries (by its address in the store).
\<close>

datatype mutable_object =
    FragmentObject string
  | FragmentArray string
  | HistoryArray addr

text \<open>
  What a handler does to the outside world, in order. \<open>Mutate\<close> is an assignment to a
  property of an object, or a call of a method that changes it in place (\<open>sort\<close>,
  \<open>push\<close>, \<open>splice\<close>, ...).
\<close>

datatype event =
    Call call
  | ToastSuccess string
  | ToastError string
  | ConsoleError string string
  | PreventDefault
  | ClipboardWrite string
  | Mutate mutable_object

text \<open>
  The props of \<open>PromptBuilderProps\<close> that the handlers use, the data apart (see
  \<open>prompt_data\<close>). The callbacks declared with \<open>?:\<close> are optional, hence \<open>option\<close>;
  \<open>onMainTextChange\<close> is required. A \<open>void\<close> callback carries no result; its own
  effects belong to the parent. The \<open>onDeprecate...\<close> and \<open>onCreate...\<close> props, like
  the \<open>onSelect...\<close> props, are handed to the panels as they are
  (\<open>onDeprecatePrompt={onDeprecatePrefix}\<close>): \<open>PromptBuilder\<close> has no code of its own
  around them.
\<close>

record PromptBuilderProps =
  generatedPrompt :: "string option"
  onMainTextChange :: "string \<Rightarrow> unit"
  onGenerate :: "(unit \<Rightarrow> unit) option"
  onTidyAndGenerate :: "(unit \<Rightarrow> unit) option"
  onSelectPrefix :: "(PromptFragment \<Rightarrow> unit) option"
  onSelectSuffix :: "(PromptFragment \<Rightarrow> unit) option"
  onSelectPhasePrompt :: "(PromptFragment \<Rightarrow> string \<Rightarrow> unit) option"
  onUpdatePrefix :: "(string \<Rightarrow> string \<Rightarrow> bool \<Rightarrow> bool promise) option"
  onUpdateSuffix :: "(string \<Rightarrow> string \<Rightarrow> bool \<Rightarrow> bool promise) option"
  onUpdatePhasePrompt :: "(string \<Rightarrow> string \<Rightarrow> string \<Rightarrow> bool \<Rightarrow> bool promise) option"
  onRestorePrefix :: "(string \<Rightarrow> HistoryLogEntry \<Rightarrow> unit) option"
  onRestoreSuffix :: "(string \<Rightarrow> HistoryLogEntry \<Rightarrow> unit) option"
  onRestorePhasePrompt :: "(string \<Rightarrow> string \<Rightarrow> HistoryLogEntry \<Rightarrow> unit) option"
  onDeprecatePrefix :: "(string \<Rightarrow> bool promise) option"
  onDeprecateSuffix :: "(string \<Rightarrow> bool promise) option"
  onDeprecatePhasePrompt :: "(string \<Rightarrow> string \<Rightarrow> bool promise) option"
  onCreatePrefix :: "(NewPrompt \<Rightarrow> bool promise) option"
  onCreateSuffix :: "(NewPrompt \<Rightarrow> bool promise) option"
  onCreatePhasePrompt :: "(string \<Rightarrow> NewPrompt \<Rightarrow> bool promise) option"

text \<open>
  A computation yields the events it produced and either an exception (\<open>Inl\<close>) or a value
  (\<open>Inr\<close>). An exception ends the computation where it is raised.
\<close>

type_synonym 'a eff = "event list \<times> (string + 'a)"

definition return_eff :: "'a \<Rightarrow> 'a eff" where
  "return_eff x = ([], Inr x)"

definition bind_eff :: "'a eff \<Rightarrow> ('a \<Rightarrow> 'b eff) \<Rightarrow> 'b eff" where
  "bind_eff m f =
     (case m of
        (es, Inl e) \<Rightarrow> (es, Inl e)
      | (es, Inr x) \<Rightarrow> (case f x of (es', r) \<Rightarrow> (es @ es', r)))"

text \<open>\<open>try { m } catch (error) { h error }\<close>\<close>

definition try_catch :: "'a eff \<Rightarrow> (string \<Rightarrow> 'a eff) \<Rightarrow> 'a eff" where
  "try_catch m h =
     (case m of
        (es, Inl e) \<Rightarrow> (case h e of (es', r) \<Rightarrow> (es @ es', r))
      | (es, Inr x) \<Rightarrow> (es, Inr x))"

text \<open>\<open>toast.success\<close>, \<open>toast.error\<close> and \<open>console.error\<close> return normally.\<close>

definition emit :: "event \<Rightarrow> unit eff" where
  "emit e = ([e], Inr ())"

text \<open>\<open>await cb(...)\<close>: the call is made, then the promise's outcome is the value or the exception.\<close>

definition await :: "call \<Rightarrow> 'a promise \<Rightarrow> 'a eff" where
  "await c p = ([Call c], (case p of Resolves v \<Rightarrow> Inr v | Rejects e \<Rightarrow> Inl e))"

section \<open>PromptBuilder: update and restore handlers\<close>

text \<open>
  Each handler is \<open>try { if (cb) { const success = await cb(...); if (success) {
  toast.success(...); return; } } toast.error(...) } catch (error) { console.error(...);
  toast.error(...) }\<close>. The inner computation yields \<open>True\<close> where the source returns early.
\<close>

definition handleUpdatePrefix :: "PromptBuilderProps \<Rightarrow> string \<Rightarrow> string \<Rightarrow> bool \<Rightarrow> unit eff" where
  "handleUpdatePrefix props prefixId newText persistChange =
     try_catch
       (bind_eff
          (case onUpdatePrefix props of
             None \<Rightarrow> return_eff False
           | Some cb \<Rightarrow>
               bind_eff (await (OnUpdatePrefix prefixId newText persistChange)
                               (cb prefixId newText persistChange))
                 (\<lambda>success.
                    if success then
                      bind_eff
                        (emit (ToastSuccess
                           (if persistChange then ''Prefix updated and persisted''
                            else ''Prefix updated for the current session'')))
                        (\<lambda>_. return_eff True)
                    else return_eff False))
          (\<lambda>returned.
             if returned then return_eff ()
             else emit (ToastError ''Failed to update prefix'')))
       (\<lambda>error.
          bind_eff (emit (ConsoleError ''Error updating prefix:'' error))
            (\<lambda>_. emit (ToastError ''Error updating prefix'')))"

definition handleRestorePrefixVersion :: "PromptBuilderProps \<Rightarrow> string \<Rightarrow> HistoryLogEntry \<Rightarrow> unit eff" where
  "handleRestorePrefixVersion props prefixId historyEntry =
     try_catch
       (bind_eff
          (case onUpdatePrefix props of
             None \<Rightarrow> return_eff False
           | Some cb \<Rightarrow>
               bind_eff (await (OnUpdatePrefix prefixId (entry_text historyEntry) True)
                               (cb prefixId (entry_text historyEntry) True))
                 (\<lambda>success.
                    if success then
                      bind_eff (emit (ToastSuccess ''Restored previous version of prefix''))
                        (\<lambda>_. return_eff True)
                    else return_eff False))
          (\<lambda>returned.
             if returned then return_eff ()
             else emit (ToastError ''Failed to restore prefix version'')))
       (\<lambda>error.
          bind_eff (emit (ConsoleError ''Error restoring prefix version:'' error))
            (\<lambda>_. emit (ToastError ''Error restoring prefix version'')))"

definition handleUpdateSuffix :: "PromptBuilderProps \<Rightarrow> string \<Rightarrow> string \<Rightarrow> bool \<Rightarrow> unit eff" where
  "handleUpdateSuffix props suffixId newText persistChange =
     try_catch
       (bind_eff
          (case onUpdateSuffix props of
             None \<Rightarrow> return_eff False
           | Some cb \<Rightarrow>
               bind_eff (await (OnUpdateSuffix suffixId newText persistChange)
                               (cb suffixId newText persistChange))
                 (\<lambda>success.
                    if success then
                      bind_eff
                        (emit (ToastSuccess
                           (if persistChange then ''Suffix updated and persisted''
                            else ''Suffix updated for the current session'')))
                        (\<lambda>_. return_eff True)
                    else return_eff False))
          (\<lambda>returned.
             if returned then return_eff ()
             else emit (ToastError ''Failed to update suffix'')))
       (\<lambda>error.
          bind_eff (emit (ConsoleError ''Error updating suffix:'' error))
            (\<lambda>_. emit (ToastError ''Error updating suffix'')))"

definition handleRestoreSuffixVersion :: "PromptBuilderProps \<Rightarrow> string \<Rightarrow> HistoryLogEntry \<Rightarrow> unit eff" where
  "handleRestoreSuffixVersion props suffixId historyEntry =
     try_catch
       (bind_eff
          (case onUpdateSuffix props of
             None \<Rightarrow> return_eff False
           | Some cb \<Rightarrow>
               bind_eff (await (OnUpdateSuffix suffixId (entry_text historyEntry) True)
                               (cb suffixId (entry_text historyEntry) True))
                 (\<lambda>success.
                    if success then
                      bind_eff (emit (ToastSuccess ''Restored previous version of suffix''))
                        (\<lambda>_. return_eff True)
                    else return_eff False))
          (\<lambda>returned.
             if returned then return_eff ()
             else emit (ToastError ''Failed to restore suffix version'')))
       (\<lambda>error.
          bind_eff (emit (ConsoleError ''Error restoring suffix version:'' error))
            (\<lambda>_. emit (ToastError ''Error restoring suffix version'')))"

definition handleUpdatePhasePrompt ::
  "PromptBuilderProps \<Rightarrow> string \<Rightarrow> string \<Rightarrow> string \<Rightarrow> bool \<Rightarrow> unit eff" where
  "handleUpdatePhasePrompt props phaseId promptId newText persistChange =
     try_catch
       (bind_eff
          (case onUpdatePhasePrompt props of
             None \<Rightarrow> return_eff False
           | Some cb \<Rightarrow>
               bind_eff (await (OnUpdatePhasePrompt phaseId promptId newText persistChange)
                               (cb phaseId promptId newText persistChange))
                 (\<lambda>success.
                    if success then
                      bind_eff
                        (emit (ToastSuccess
                           (if persistChange then ''Phase prompt updated and persisted''
                            else ''Phase prompt updated for the current session'')))
                        (\<lambda>_. return_eff True)
                    else return_eff False))
          (\<lambda>returned.
             if returned then return_eff ()
             else emit (ToastError ''Failed to update phase prompt'')))
       (\<lambda>error.
          bind_eff (emit (ConsoleError ''Error updating phase prompt:'' error))
            (\<lambda>_. emit (ToastError ''Error updating phase prompt'')))"

definition handleRestorePhasePromptVersion ::
  "PromptBuilderProps \<Rightarrow> string \<Rightarrow> string \<Rightarrow> HistoryLogEntry \<Rightarrow> unit eff" where
  "handleRestorePhasePromptVersion props phaseId promptId historyEntry =
     try_catch
       (bind_eff
          (case onUpdatePhasePrompt props of
             None \<Rightarrow> return_eff False
           | Some cb \<Rightarrow>
               bind_eff (await (OnUpdatePhasePrompt phaseId promptId (entry_text historyEntry) True)
                               (cb phaseId promptId (entry_text historyEntry) True))
                 (\<lambda>success.
                    if success then
                      bind_eff (emit (ToastSuccess ''Restored previous version of phase prompt''))
                        (\<lambda>_. return_eff True)
                    else return_eff False))
          (\<lambda>returned.
             if returned then return_eff ()
             else emit (ToastError ''Failed to restore phase prompt version'')))
       (\<lambda>error.
          bind_eff (emit (ConsoleError ''Error restoring phase prompt version:'' error))
            (\<lambda>_. emit (ToastError ''Error restoring phase prompt version'')))"

text \<open>Reading a trace: the toasts of each kind and the callback invocations, in order.\<close>

fun success_toasts :: "event list \<Rightarrow> string list" where
  "success_toasts [] = []"
| "success_toasts (ToastSuccess m # es) = m # success_toasts es"
| "success_toasts (_ # es) = success_toasts es"

fun error_toasts :: "event list \<Rightarrow> string list" where
  "error_toasts [] = []"
| "error_toasts (ToastError m # es) = m # error_toasts es"
| "error_toasts (_ # es) = error_toasts es"

fun calls :: "event list \<Rightarrow> call list" where
  "calls [] = []"
| "calls (Call c # es) = c # calls es"
| "calls (_ # es) = calls es"

fun is_restore_call :: "call \<Rightarrow> bool" where
  "is_restore_call (OnRestorePrefix _ _) = True"
| "is_restore_call (OnRestoreSuffix _ _) = True"
| "is_restore_call (OnRestorePhasePrompt _ _ _) = True"
| "is_restore_call _ = False"

fun mutations :: "event list \<Rightarrow> mutable_object list" where
  "mutations [] = []"
| "mutations (Mutate m # es) = m # mutations es"
| "mutations (_ # es) = mutations es"

section \<open>PromptBuilder: keyboard handling\<close>

text \<open>
  The textarea as the handler reads it: \<open>selectionStart\<close> and \<open>value\<close> (here
  \<open>ta_value\<close>). A string is its list of code units.
\<close>

record textarea =
  selectionStart :: nat
  ta_value :: string

record KeyboardEvent =
  ctrlKey :: bool
  key :: string
  currentTarget :: textarea

datatype dropdown_type = DAll | DPhase | DPrefix | DSuffix

record position =
  top_px :: nat
  left_px :: nat

text \<open>The \<open>useState\<close> cells of \<open>PromptBuilder\<close>.\<close>

record builder_state =
  showGenerated :: bool
  showDropdown :: bool
  dropdownType :: dropdown_type
  dropdownPosition :: position

definition newline :: char where
  "newline = CHR 0x0A"

text \<open>\<open>s.charAt(i)\<close>: the one-character string at \<open>i\<close>, the empty string out of range.\<close>

definition charAt :: "string \<Rightarrow> nat \<Rightarrow> string" where
  "charAt s i = (if i < length s then [s ! i] else [])"

text \<open>\<open>s.split(c)\<close> for a one-character separator: never empty, \<open>[""]\<close> for the empty string.\<close>

fun split_on :: "char \<Rightarrow> string \<Rightarrow> string list" where
  "split_on c [] = [[]]"
| "split_on c (x # xs) =
     (if x = c then [] # split_on c xs
      else (case split_on c xs of
              [] \<Rightarrow> [[x]]
            | l # ls \<Rightarrow> (x # l) # ls))"

text \<open>
  The local function \<open>handleDropdownTrigger\<close> of \<open>handleKeyDown\<close>. \<open>textareaRef.current\<close>
  is \<open>null\<close> before the textarea is mounted, hence the \<open>option\<close>;
  \<open>value.substring(0, cursorPosition)\<close> is \<open>take\<close>.
\<close>

definition handleDropdownTrigger ::
  "textarea option \<Rightarrow> dropdown_type \<Rightarrow> builder_state \<Rightarrow> builder_state \<times> event list" where
  "handleDropdownTrigger textareaRef type s =
     (let s1 =
        (case textareaRef of
           None \<Rightarrow> s
         | Some ta \<Rightarrow>
             (let cursorPosition = selectionStart ta;
                  text = take cursorPosition (ta_value ta);
                  lines = split_on newline text;
                  currentLineIndex = length lines - 1;
                  lineHeight = 24;
                  charWidth = 8
              in s\<lparr>dropdownPosition :=
                     \<lparr>top_px = currentLineIndex * lineHeight + 30,
                      left_px = length (lines ! currentLineIndex) * charWidth + 10\<rparr>\<rparr>))
      in (s1\<lparr>dropdownType := type, showDropdown := True\<rparr>, [PreventDefault]))"

text \<open>\<open>cb?.()\<close>: the call is made when the prop is there.\<close>

definition call_if_present :: "'a option \<Rightarrow> call \<Rightarrow> event list" where
  "call_if_present cb c = (case cb of None \<Rightarrow> [] | Some _ \<Rightarrow> [Call c])"

definition handleKeyDown ::
  "PromptBuilderProps \<Rightarrow> textarea option \<Rightarrow> KeyboardEvent \<Rightarrow> builder_state
     \<Rightarrow> builder_state \<times> event list" where
  "handleKeyDown props textareaRef event s =
     (if ctrlKey event \<and> key event = ''Enter'' then
        (s, PreventDefault # call_if_present (onGenerate props) OnGenerate)
      else if ctrlKey event \<and> key event = ''t'' then
        (s, PreventDefault # call_if_present (onTidyAndGenerate props) OnTidyAndGenerate)
      else if selectionStart (currentTarget event) = 0 \<or>
              charAt (ta_value (currentTarget event)) (selectionStart (currentTarget event) - 1)
                = [newline] then
        (if key event = ''/'' then handleDropdownTrigger textareaRef DAll s
         else if key event = ''#'' then handleDropdownTrigger textareaRef DPhase s
         else if key event = ''$'' then handleDropdownTrigger textareaRef DPrefix s
         else if key event = ''@'' then handleDropdownTrigger textareaRef DSuffix s
         else (s, []))
      else (s, []))"

datatype fragment_kind = KPhase | KPrefix | KSuffix

text \<open>\<open>phaseId\<close> is an optional string, tested for truthiness: present and not empty.\<close>

definition handleDropdownSelect ::
  "PromptBuilderProps \<Rightarrow> PromptFragment \<Rightarrow> fragment_kind \<Rightarrow> string option \<Rightarrow> builder_state
     \<Rightarrow> builder_state \<times> event list" where
  "handleDropdownSelect props item type phaseId s =
     (s\<lparr>showDropdown := False\<rparr>,
      (if type = KPrefix \<and> onSelectPrefix props \<noteq> None then [Call (OnSelectPrefix item)]
       else if type = KSuffix \<and> onSelectSuffix props \<noteq> None then [Call (OnSelectSuffix item)]
       else if type = KPhase \<and> onSelectPhasePrompt props \<noteq> None then
         (case phaseId of
            None \<Rightarrow> []
          | Some pid \<Rightarrow> if pid = [] then [] else [Call (OnSelectPhasePrompt item pid)])
       else []))"

text \<open>
  The handlers written inline in the JSX: the effect on \<open>generatedPrompt\<close>, the copy
  button, the two generation buttons (\<open>onClick={onGenerate}\<close>: nothing happens when the
  prop is missing), the textarea's \<open>onChange\<close> and the dropdown's cancel button.
\<close>

definition generatedPromptEffect :: "PromptBuilderProps \<Rightarrow> builder_state \<Rightarrow> builder_state" where
  "generatedPromptEffect props s = s\<lparr>showGenerated := (generatedPrompt props \<noteq> None)\<rparr>"

definition copyToClipboard :: "string \<Rightarrow> event list" where
  "copyToClipboard text = [ClipboardWrite text]"

definition handleCopyClick :: "PromptBuilderProps \<Rightarrow> event list" where
  "handleCopyClick props =
     copyToClipboard (case generatedPrompt props of None \<Rightarrow> [] | Some g \<Rightarrow> g)"

definition handleGenerateClick :: "PromptBuilderProps \<Rightarrow> event list" where
  "handleGenerateClick props = call_if_present (onGenerate props) OnGenerate"

definition handleTidyAndGenerateClick :: "PromptBuilderProps \<Rightarrow> event list" where
  "handleTidyAndGenerateClick props =
     call_if_present (onTidyAndGenerate props) OnTidyAndGenerate"

definition handleMainTextChange :: "PromptBuilderProps \<Rightarrow> string \<Rightarrow> event list" where
  "handleMainTextChange props v = [Call (OnMainTextChange v)]"

definition handleCancelClick :: "builder_state \<Rightarrow> builder_state" where
  "handleCancelClick s = s\<lparr>showDropdown := False\<rparr>"

section \<open>PromptBuilder: the picker dropdown\<close>

text \<open>
  The children of the dropdown's \<open>ScrollArea\<close>, in document order. An \<open>ItemButton\<close> is a
  \<open>button\<close> whose click is \<open>handleDropdownSelect(item, kind, phaseId)\<close>; its label (the first
  40 characters of the text) is not part of the model. The \<open>div\<close> around a phase's header
  and buttons is flattened.
\<close>

datatype node =
    PhaseHeader string
  | SectionHeader string
  | ItemButton fragment_kind PromptFragment "string option"
  | NoPromptsAvailable

text \<open>\<open>xs.filter((p) => !p.deprecated)\<close>\<close>

definition not_deprecated :: "PromptFragment list \<Rightarrow> PromptFragment list" where
  "not_deprecated xs = filter (\<lambda>p. \<not> deprecated p) xs"

text \<open>\<open>Object.values(m)\<close>: one value for each key of the object.\<close>

definition object_values :: "(string \<times> 'v) list \<Rightarrow> 'v list" where
  "object_values m = map snd (AList.clearjunk m)"

text \<open>
  The property names every plain object inherits from \<open>Object.prototype\<close>.
  \<open>phasePromptsMap\<close> is taken to be a plain object with that prototype.
\<close>

definition object_prototype_keys :: "string list" where
  "object_prototype_keys =
     [''constructor'', ''__defineGetter__'', ''__defineSetter__'', ''hasOwnProperty'',
      ''__lookupGetter__'', ''__lookupSetter__'', ''isPrototypeOf'', ''propertyIsEnumerable'',
      ''toString'', ''valueOf'', ''__proto__'', ''toLocaleString'']"

text \<open>
  \<open>obj[k]\<close>: the object's own entry, or else what it inherits under that name (a function
  or the prototype itself, never \<open>undefined\<close>), or else \<open>undefined\<close>.
\<close>

datatype 'v property = Undefined | Own 'v | Inherited

definition get_property :: "(string \<times> 'v) list \<Rightarrow> string \<Rightarrow> 'v property" where
  "get_property obj k =
     (case map_of obj k of
        Some v \<Rightarrow> Own v
      | None \<Rightarrow> if k \<in> set object_prototype_keys then Inherited else Undefined)"

text \<open>
  One phase of \<open>phasesConfig.phases.map(...)\<close>: the header, then
  \<open>phasePromptsMap[phase.id]?.prompts.filter(...).map(...)\<close>. The \<open>?.\<close> yields nothing for
  \<open>undefined\<close> only: an inherited value is not \<open>undefined\<close>, its \<open>prompts\<close> is, and
  \<open>.filter\<close> on that throws a \<open>TypeError\<close>.
\<close>

definition phase_section :: "prompt_data \<Rightarrow> PhaseConfig \<Rightarrow> string + node list" where
  "phase_section d phase =
     (case get_property (phasePromptsMap d) (phase_id phase) of
        Undefined \<Rightarrow> Inr [PhaseHeader (phase_name phase)]
      | Own pp \<Rightarrow>
          Inr (PhaseHeader (phase_name phase) #
               map (\<lambda>p. ItemButton KPhase p (Some (phase_id phase)))
                 (not_deprecated (prompts pp)))
      | Inherited \<Rightarrow> Inl ''TypeError'')"

text \<open>\<open>xs.map(f)\<close> for an \<open>f\<close> that may throw: the first exception ends it.\<close>

fun map_throwing :: "('a \<Rightarrow> string + 'b) \<Rightarrow> 'a list \<Rightarrow> string + 'b list" where
  "map_throwing f [] = Inr []"
| "map_throwing f (x # xs) =
     (case f x of
        Inl e \<Rightarrow> Inl e
      | Inr y \<Rightarrow>
          (case map_throwing f xs of
             Inl e \<Rightarrow> Inl e
           | Inr ys \<Rightarrow> Inr (y # ys)))"

definition no_results :: "prompt_data \<Rightarrow> dropdown_type \<Rightarrow> bool" where
  "no_results d ty \<longleftrightarrow>
     (ty = DPrefix \<and> length (not_deprecated (prefixes (prefixesData d))) = 0) \<or>
     (ty = DSuffix \<and> length (not_deprecated (suffixes (suffixesData d))) = 0) \<or>
     (ty = DPhase \<and>
        list_all (\<lambda>p. length (not_deprecated (prompts p)) = 0)
          (object_values (phasePromptsMap d)))"

text \<open>
  The render of the list: \<open>Inl\<close> when it throws. Only the phase listing can throw; the
  other expressions are evaluated before or after it and have no effect of their own.
\<close>

definition dropdownList :: "prompt_data \<Rightarrow> dropdown_type \<Rightarrow> string + node list" where
  "dropdownList d ty =
     (case (if ty = DPhase \<or> ty = DAll then
              map_throwing (phase_section d) (phases (phasesConfig d))
            else Inr []) of
        Inl e \<Rightarrow> Inl e
      | Inr sections \<Rightarrow>
          Inr
            ((if ty = DPrefix then
                map (\<lambda>p. ItemButton KPrefix p None) (not_deprecated (prefixes (prefixesData d)))
              else []) @
             (if ty = DSuffix then
                map (\<lambda>p. ItemButton KSuffix p None) (not_deprecated (suffixes (suffixesData d)))
              else []) @
             concat sections @
             (if ty = DAll then
                SectionHeader ''Prefixes'' #
                map (\<lambda>p. ItemButton KPrefix p None)
                  (take 3 (not_deprecated (prefixes (prefixesData d)))) @
                SectionHeader ''Suffixes'' #
                map (\<lambda>p. ItemButton KSuffix p None)
                  (take 3 (not_deprecated (suffixes (suffixesData d))))
              else []) @
             (if no_results d ty then [NoPromptsAvailable] else [])))"

text \<open>What the dropdown shows: the nodes of the render, nothing when the render throws.\<close>

definition displayed :: "string + node list \<Rightarrow> node list" where
  "displayed r = (case r of Inl e \<Rightarrow> [] | Inr ns \<Rightarrow> ns)"

text \<open>The fragments a list of nodes offers for one kind, in order.\<close>

fun listed :: "fragment_kind \<Rightarrow> node list \<Rightarrow> PromptFragment list" where
  "listed k [] = []"
| "listed k (ItemButton k' p _ # ns) = (if k' = k then p # listed k ns else listed k ns)"
| "listed k (_ # ns) = listed k ns"

section \<open>PromptItem\<close>

record PromptItemProps =
  prompt :: PromptFragment
  onSelect :: "(PromptFragment \<Rightarrow> unit) option"
  onUpdate :: "(string \<Rightarrow> string \<Rightarrow> bool \<Rightarrow> unit) option"
  onRestoreVersion :: "(string \<Rightarrow> HistoryLogEntry \<Rightarrow> unit) option"

record item_state =
  isEditing :: bool
  editText :: string
  showHistory :: bool

definition handleEdit :: "PromptItemProps \<Rightarrow> item_state \<Rightarrow> item_state \<times> event list" where
  "handleEdit props st = (st\<lparr>editText := frag_text (prompt props), isEditing := True\<rparr>, [])"

definition handleUpdate :: "PromptItemProps \<Rightarrow> bool \<Rightarrow> item_state \<Rightarrow> item_state \<times> event list" where
  "handleUpdate props persistChange st =
     (st\<lparr>isEditing := False\<rparr>,
      call_if_present (onUpdate props)
        (OnUpdate (frag_id (prompt props)) (editText st) persistChange))"

definition handleSelect :: "PromptItemProps \<Rightarrow> item_state \<Rightarrow> item_state \<times> event list" where
  "handleSelect props st = (st, call_if_present (onSelect props) (OnSelect (prompt props)))"

definition handleRestoreVersion ::
  "PromptItemProps \<Rightarrow> HistoryLogEntry \<Rightarrow> item_state \<Rightarrow> item_state \<times> event list" where
  "handleRestoreVersion props historyEntry st =
     (st\<lparr>showHistory := False\<rparr>,
      call_if_present (onRestoreVersion props)
        (OnRestoreVersion (frag_id (prompt props)) historyEntry))"

text \<open>
  The handlers written inline in the JSX: the history button, the edit textarea's
  \<open>onChange\<close>, the edit dialog's cancel button, and the two dialogs'
  \<open>onOpenChange\<close> (\<open>setIsEditing\<close> and \<open>setShowHistory\<close> themselves).
\<close>

definition handleHistoryClick :: "item_state \<Rightarrow> item_state" where
  "handleHistoryClick st = st\<lparr>showHistory := True\<rparr>"

definition handleEditTextChange :: "string \<Rightarrow> item_state \<Rightarrow> item_state" where
  "handleEditTextChange v st = st\<lparr>editText := v\<rparr>"

definition handleCancelEditClick :: "item_state \<Rightarrow> item_state" where
  "handleCancelEditClick st = st\<lparr>isEditing := False\<rparr>"

definition setIsEditing :: "bool \<Rightarrow> item_state \<Rightarrow> item_state" where
  "setIsEditing b st = st\<lparr>isEditing := b\<rparr>"

definition setShowHistory :: "bool \<Rightarrow> item_state \<Rightarrow> item_state" where
  "setShowHistory b st = st\<lparr>showHistory := b\<rparr>"

subsection \<open>Arrays in the store\<close>

text \<open>The array at an address; a reference held by a live object is always in range.\<close>

definition arr :: "'a list list \<Rightarrow> addr \<Rightarrow> 'a list" where
  "arr h a = (if a < length h then h ! a else [])"

text \<open>\<open>[...xs]\<close>: a new array with the elements of the one at \<open>a\<close>.\<close>

definition spread :: "'a list list \<Rightarrow> addr \<Rightarrow> 'a list list \<times> addr" where
  "spread h a = (h @ [arr h a], length h)"

text \<open>
  \<open>Array.prototype.sort(compareFn)\<close> puts \<open>a\<close> after \<open>b\<close> when \<open>compareFn(a, b) > 0\<close>
  and keeps the order of elements that compare equal. The result of a comparison is a
  number or \<open>NaN\<close> (\<open>None\<close>), which the sort reads as \<open>+0\<close>.
\<close>

definition sort_compare :: "int option \<Rightarrow> int" where
  "sort_compare v = (case v of None \<Rightarrow> 0 | Some n \<Rightarrow> n)"

text \<open>
  A consistent comparator for the elements of the array, as the language defines it: no
  comparison is \<open>NaN\<close>, equality is reflexive, symmetric and transitive, less and greater
  are transitive.
\<close>

definition consistent :: "('a \<Rightarrow> 'a \<Rightarrow> int option) \<Rightarrow> 'a list \<Rightarrow> bool" where
  "consistent cmp xs \<longleftrightarrow>
     (\<forall>a \<in> set xs. \<forall>b \<in> set xs. \<forall>c \<in> set xs.
        cmp a b \<noteq> None \<and>
        sort_compare (cmp a a) = 0 \<and>
        (sort_compare (cmp a b) = 0 \<longrightarrow> sort_compare (cmp b a) = 0) \<and>
        (sort_compare (cmp a b) = 0 \<and> sort_compare (cmp b c) = 0
           \<longrightarrow> sort_compare (cmp a c) = 0) \<and>
        (sort_compare (cmp a b) < 0 \<and> sort_compare (cmp b c) < 0
           \<longrightarrow> sort_compare (cmp a c) < 0) \<and>
        (sort_compare (cmp a b) > 0 \<and> sort_compare (cmp b c) > 0
           \<longrightarrow> sort_compare (cmp a c) > 0))"

text \<open>The stable sort, by insertion from the right.\<close>

fun insert_by :: "('a \<Rightarrow> 'a \<Rightarrow> int) \<Rightarrow> 'a \<Rightarrow> 'a list \<Rightarrow> 'a list" where
  "insert_by cmp x [] = [x]"
| "insert_by cmp x (y # ys) =
     (if cmp x y \<le> 0 then x # y # ys else y # insert_by cmp x ys)"

definition sort_by :: "('a \<Rightarrow> 'a \<Rightarrow> int) \<Rightarrow> 'a list \<Rightarrow> 'a list" where
  "sort_by cmp xs = foldr (insert_by cmp) xs []"

text \<open>
  The order \<open>sort\<close> leaves the elements in. For a consistent comparator the language
  fixes it: the stable sorted order. For any other comparator the order is
  implementation-defined: \<open>engine\<close> stands for the JavaScript engine's algorithm, which
  returns the same elements in an order of its choice (an \<open>engine\<close> that returned other
  elements is not one, and the array is then left as it is).
\<close>

definition sort_order ::
  "(('a \<Rightarrow> 'a \<Rightarrow> int option) \<Rightarrow> 'a list \<Rightarrow> 'a list) \<Rightarrow> ('a \<Rightarrow> 'a \<Rightarrow> int option) \<Rightarrow> 'a list
     \<Rightarrow> 'a list" where
  "sort_order engine cmp xs =
     (if consistent cmp xs then sort_by (\<lambda>a b. sort_compare (cmp a b)) xs
      else (let ys = engine cmp xs in if mset ys = mset xs then ys else xs))"

text \<open>
  One engine: it sorts by insertion and reads \<open>NaN\<close> as \<open>+0\<close>, whatever the comparator.
\<close>

definition insertion_engine :: "('a \<Rightarrow> 'a \<Rightarrow> int option) \<Rightarrow> 'a list \<Rightarrow> 'a list" where
  "insertion_engine cmp xs = sort_by (\<lambda>a b. sort_compare (cmp a b)) xs"

text \<open>
  \<open>a.sort(compareFn)\<close> sorts the array it is called on in place and returns the same
  reference.
\<close>

definition array_sort ::
  "(('a \<Rightarrow> 'a \<Rightarrow> int option) \<Rightarrow> 'a list \<Rightarrow> 'a list) \<Rightarrow> ('a \<Rightarrow> 'a \<Rightarrow> int option)
     \<Rightarrow> 'a list list \<Rightarrow> addr \<Rightarrow> 'a list list \<times> addr" where
  "array_sort engine cmp h a =
     ((if a < length h then h[a := sort_order engine cmp (h ! a)] else h), a)"

text \<open>
  The comparator \<open>(a, b) => new Date(b.timestamp).getTime() - new Date(a.timestamp).getTime()\<close>.
  \<open>getTime\<close> stands for \<open>new Date(\<cdot>).getTime()\<close>: the milliseconds of a timestamp, or
  \<open>None\<close> for \<open>NaN\<close> (an invalid date). Time values are whole numbers of magnitude at
  most 8.64e15, so the difference computed in floating point has the sign of the exact
  difference. A difference with \<open>NaN\<close> is \<open>NaN\<close>.
\<close>

definition compareFn ::
  "(string \<Rightarrow> int option) \<Rightarrow> HistoryLogEntry \<Rightarrow> HistoryLogEntry \<Rightarrow> int option" where
  "compareFn getTime a b =
     (case (getTime (timestamp b), getTime (timestamp a)) of
        (Some tb, Some ta) \<Rightarrow> Some (tb - ta)
      | _ \<Rightarrow> None)"

text \<open>\<open>const sortedHistory = [...prompt.history_log].sort(...)\<close>, evaluated at every render.\<close>

definition sortedHistory ::
  "((HistoryLogEntry \<Rightarrow> HistoryLogEntry \<Rightarrow> int option) \<Rightarrow> HistoryLogEntry list
      \<Rightarrow> HistoryLogEntry list)
     \<Rightarrow> (string \<Rightarrow> int option) \<Rightarrow> HistoryLogEntry list list \<Rightarrow> PromptItemProps
     \<Rightarrow> HistoryLogEntry list list \<times> addr" where
  "sortedHistory engine getTime h props =
     (case spread h (history_log (prompt props)) of
        (h1, c) \<Rightarrow> array_sort engine (compareFn getTime) h1 c)"

text \<open>The body of the history dialog.\<close>

datatype history_node = NoHistoryAvailable | HistoryCard HistoryLogEntry


text \<open>The entries of the cards shown, in order.\<close>

fun shown_entries :: "history_node list \<Rightarrow> HistoryLogEntry list" where
  "shown_entries [] = []"
| "shown_entries (HistoryCard e # ns) = e # shown_entries ns"
| "shown_entries (NoHistoryAvailable # ns) = shown_entries ns"

section \<open>Handler invocations over the data received through props\<close>

text \<open>
  One invocation of a handler of \<open>PromptBuilder\<close>, by the textarea, the dropdown, a button,
  a panel, or by React for the effect. For a prop that \<open>PromptBuilder\<close> hands to a panel as
  it is (select, deprecate, create), the handler is the parent's callback itself: the
  panel's invocation is the call of that callback, when it is there. An invocation yields
  the data of the props and the component's state after it, and the events.
\<close>

datatype builder_invocation =
    UpdatePrefix string string bool
  | RestorePrefixVersion string HistoryLogEntry
  | UpdateSuffix string string bool
  | RestoreSuffixVersion string HistoryLogEntry
  | UpdatePhasePrompt string string string bool
  | RestorePhasePromptVersion string string HistoryLogEntry
  | KeyDown "textarea option" KeyboardEvent
  | DropdownSelect PromptFragment fragment_kind "string option"
  | GeneratedPromptEffect
  | CopyClick
  | GenerateClick
  | TidyAndGenerateClick
  | MainTextChange string
  | CancelClick
  | PanelSelectPrefix PromptFragment
  | PanelSelectSuffix PromptFragment
  | PanelSelectPhasePrompt PromptFragment string
  | PanelDeprecatePrefix string
  | PanelDeprecateSuffix string
  | PanelDeprecatePhasePrompt string string
  | PanelCreatePrefix NewPrompt
  | PanelCreateSuffix NewPrompt
  | PanelCreatePhasePrompt string NewPrompt

fun builder_invoke ::
  "PromptBuilderProps \<Rightarrow> builder_invocation \<Rightarrow> prompt_data \<times> builder_state
     \<Rightarrow> (prompt_data \<times> builder_state) \<times> event list" where
  "builder_invoke props (UpdatePrefix i t p) (d, s) =
     ((d, s), fst (handleUpdatePrefix props i t p))"
| "builder_invoke props (RestorePrefixVersion i e) (d, s) =
     ((d, s), fst (handleRestorePrefixVersion props i e))"
| "builder_invoke props (UpdateSuffix i t p) (d, s) =
     ((d, s), fst (handleUpdateSuffix props i t p))"
| "builder_invoke props (RestoreSuffixVersion i e) (d, s) =
     ((d, s), fst (handleRestoreSuffixVersion props i e))"
| "builder_invoke props (UpdatePhasePrompt ph i t p) (d, s) =
     ((d, s), fst (handleUpdatePhasePrompt props ph i t p))"
| "builder_invoke props (RestorePhasePromptVersion ph i e) (d, s) =
     ((d, s), fst (handleRestorePhasePromptVersion props ph i e))"
| "builder_invoke props (KeyDown r ev) (d, s) =
     (case handleKeyDown props r ev s of (s', es) \<Rightarrow> ((d, s'), es))"
| "builder_invoke props (DropdownSelect item k ph) (d, s) =
     (case handleDropdownSelect props item k ph s of (s', es) \<Rightarrow> ((d, s'), es))"
| "builder_invoke props GeneratedPromptEffect (d, s) =
     ((d, generatedPromptEffect props s), [])"
| "builder_invoke props CopyClick (d, s) = ((d, s), handleCopyClick props)"
| "builder_invoke props GenerateClick (d, s) = ((d, s), handleGenerateClick props)"
| "builder_invoke props TidyAndGenerateClick (d, s) =
     ((d, s), handleTidyAndGenerateClick props)"
| "builder_invoke props (MainTextChange v) (d, s) = ((d, s), handleMainTextChange props v)"
| "builder_invoke props CancelClick (d, s) = ((d, handleCancelClick s), [])"
| "builder_invoke props (PanelSelectPrefix f) (d, s) =
     ((d, s), call_if_present (onSelectPrefix props) (OnSelectPrefix f))"
| "builder_invoke props (PanelSelectSuffix f) (d, s) =
     ((d, s), call_if_present (onSelectSuffix props) (OnSelectSuffix f))"
| "builder_invoke props (PanelSelectPhasePrompt f ph) (d, s) =
     ((d, s), call_if_present (onSelectPhasePrompt props) (OnSelectPhasePrompt f ph))"
| "builder_invoke props (PanelDeprecatePrefix i) (d, s) =
     ((d, s), call_if_present (onDeprecatePrefix props) (OnDeprecatePrefix i))"
| "builder_invoke props (PanelDeprecateSuffix i) (d, s) =
     ((d, s), call_if_present (onDeprecateSuffix props) (OnDeprecateSuffix i))"
| "builder_invoke props (PanelDeprecatePhasePrompt i ph) (d, s) =
     ((d, s), call_if_present (onDeprecatePhasePrompt props) (OnDeprecatePhasePrompt i ph))"
| "builder_invoke props (PanelCreatePrefix n) (d, s) =
     ((d, s), call_if_present (onCreatePrefix props) (OnCreatePrefix n))"
| "builder_invoke props (PanelCreateSuffix n) (d, s) =
     ((d, s), call_if_present (onCreateSuffix props) (OnCreateSuffix n))"
| "builder_invoke props (PanelCreatePhasePrompt ph n) (d, s) =
     ((d, s), call_if_present (onCreatePhasePrompt props) (OnCreatePhasePrompt ph n))"

text \<open>
  One invocation of a handler of \<open>PromptItem\<close>, or one render of it. The render holds the
  only mutating call of the two components, the \<open>sort\<close>; its target is the array that
  \<open>sort\<close> is called on.
\<close>

datatype item_invocation =
    ItemEdit
  | ItemUpdate bool
  | ItemSelect
  | ItemRestoreVersion HistoryLogEntry
  | ItemHistoryClick
  | ItemEditTextChange string
  | ItemCancelEditClick
  | ItemEditOpenChange bool
  | ItemHistoryOpenChange bool
  | ItemRender

fun item_invoke ::
  "((HistoryLogEntry \<Rightarrow> HistoryLogEntry \<Rightarrow> int option) \<Rightarrow> HistoryLogEntry list
      \<Rightarrow> HistoryLogEntry list)
     \<Rightarrow> (string \<Rightarrow> int option) \<Rightarrow> PromptItemProps \<Rightarrow> item_invocation
     \<Rightarrow> prompt_data \<times> item_state \<Rightarrow> (prompt_data \<times> item_state) \<times> event list" where
  "item_invoke engine getTime props ItemEdit (d, st) =
     (case handleEdit props st of (st', es) \<Rightarrow> ((d, st'), es))"
| "item_invoke engine getTime props (ItemUpdate p) (d, st) =
     (case handleUpdate props p st of (st', es) \<Rightarrow> ((d, st'), es))"
| "item_invoke engine getTime props ItemSelect (d, st) =
     (case handleSelect props st of (st', es) \<Rightarrow> ((d, st'), es))"
| "item_invoke engine getTime props (ItemRestoreVersion e) (d, st) =
     (case handleRestoreVersion props e st of (st', es) \<Rightarrow> ((d, st'), es))"
| "item_invoke engine getTime props ItemHistoryClick (d, st) =
     ((d, handleHistoryClick st), [])"
| "item_invoke engine getTime props (ItemEditTextChange v) (d, st) =
     ((d, handleEditTextChange v st), [])"
| "item_invoke engine getTime props ItemCancelEditClick (d, st) =
     ((d, handleCancelEditClick st), [])"
| "item_invoke engine getTime props (ItemEditOpenChange b) (d, st) =
     ((d, setIsEditing b st), [])"
| "item_invoke engine getTime props (ItemHistoryOpenChange b) (d, st) =
     ((d, setShowHistory b st), [])"
| "item_invoke engine getTime props ItemRender (d, st) =
     (case sortedHistory engine getTime (arrays d) props of
        (h', c) \<Rightarrow> ((d\<lparr>arrays := h'\<rparr>, st), [Mutate (HistoryArray c)]))"

section \<open>Example inputs\<close>

text \<open>Concrete props and data on which the properties below are exercised.\<close>

definition example_props :: "bool promise \<Rightarrow> PromptBuilderProps" where
  "example_props outcome =
     \<lparr>generatedPrompt = None,
      onMainTextChange = (\<lambda>_. ()),
      onGenerate = Some (\<lambda>_. ()),
      onTidyAndGenerate = Some (\<lambda>_. ()),
      onSelectPrefix = Some (\<lambda>_. ()),
      onSelectSuffix = Some (\<lambda>_. ()),
      onSelectPhasePrompt = Some (\<lambda>_ _. ()),
      onUpdatePrefix = Some (\<lambda>_ _ _. outcome),
      onUpdateSuffix = Some (\<lambda>_ _ _. outcome),
      onUpdatePhasePrompt = Some (\<lambda>_ _ _ _. outcome),
      onRestorePrefix = Some (\<lambda>_ _. ()),
      onRestoreSuffix = Some (\<lambda>_ _. ()),
      onRestorePhasePrompt = Some (\<lambda>_ _ _. ()),
      onDeprecatePrefix = Some (\<lambda>_. outcome),
      onDeprecateSuffix = Some (\<lambda>_. outcome),
      onDeprecatePhasePrompt = Some (\<lambda>_ _. outcome),
      onCreatePrefix = Some (\<lambda>_. outcome),
      onCreateSuffix = Some (\<lambda>_. outcome),
      onCreatePhasePrompt = Some (\<lambda>_ _. outcome)\<rparr>"

definition example_no_callbacks :: PromptBuilderProps where
  "example_no_callbacks =
     \<lparr>generatedPrompt = Some ''Summarise the notes'', onMainTextChange = (\<lambda>_. ()),
      onGenerate = None, onTidyAndGenerate = None, onSelectPrefix = None,
      onSelectSuffix = None, onSelectPhasePrompt = None, onUpdatePrefix = None,
      onUpdateSuffix = None, onUpdatePhasePrompt = None, onRestorePrefix = None,
      onRestoreSuffix = None, onRestorePhasePrompt = None, onDeprecatePrefix = None,
      onDeprecateSuffix = None, onDeprecatePhasePrompt = None, onCreatePrefix = None,
      onCreateSuffix = None, onCreatePhasePrompt = None\<rparr>"

definition example_entry :: "string \<Rightarrow> string \<Rightarrow> HistoryLogEntry" where
  "example_entry ts t = \<lparr>timestamp = ts, entry_text = t\<rparr>"

definition example_textarea :: textarea where
  "example_textarea = \<lparr>selectionStart = 6, ta_value = ''hello'' @ [newline] @ ''world''\<rparr>"

definition example_keydown :: "bool \<Rightarrow> string \<Rightarrow> KeyboardEvent" where
  "example_keydown ctrl k = \<lparr>ctrlKey = ctrl, key = k, currentTarget = example_textarea\<rparr>"

definition example_state :: builder_state where
  "example_state =
     \<lparr>showGenerated = False, showDropdown = False, dropdownType = DAll,
      dropdownPosition = \<lparr>top_px = 0, left_px = 0\<rparr>\<rparr>"

definition example_fragment :: "string \<Rightarrow> bool \<Rightarrow> addr \<Rightarrow> PromptFragment" where
  "example_fragment i dep a =
     \<lparr>frag_id = i, frag_text = ''Write a summary'', deprecated = dep, history_log = a\<rparr>"

definition example_data :: prompt_data where
  "example_data =
     \<lparr>prefixesData = \<lparr>prefixes =
        [example_fragment ''p1'' False 0, example_fragment ''p2'' True 1,
         example_fragment ''p3'' False 2, example_fragment ''p4'' False 3,
         example_fragment ''p5'' False 4]\<rparr>,
      suffixesData = \<lparr>suffixes = [example_fragment ''s1'' True 5]\<rparr>,
      phasesConfig = \<lparr>phases =
        [\<lparr>phase_id = ''plan'', phase_name = ''Planning''\<rparr>,
         \<lparr>phase_id = ''build'', phase_name = ''Building''\<rparr>]\<rparr>,
      phasePromptsMap =
        [(''plan'', \<lparr>prompts =
            [example_fragment ''q1'' False 6, example_fragment ''q2'' False 7,
             example_fragment ''q3'' True 8, example_fragment ''q4'' False 9,
             example_fragment ''q5'' False 10]\<rparr>)],
      arrays =
        [example_entry ''2024-01-01'' ''first'', example_entry ''2024-06-01'' ''third'',
         example_entry ''2024-03-01'' ''second''] # replicate 10 []\<rparr>"


text \<open>A configured phase whose id is an inherited property name and has no entry.\<close>

definition example_inherited_data :: prompt_data where
  "example_inherited_data =
     example_data
       \<lparr>phasesConfig := \<lparr>phases = [\<lparr>phase_id = ''constructor'', phase_name = ''Construct''\<rparr>]\<rparr>,
        phasePromptsMap := []\<rparr>"


definition example_getTime :: "string \<Rightarrow> int option" where
  "example_getTime ts =
     (if ts = ''2024-01-01'' then Some 1704067200000
      else if ts = ''2024-03-01'' then Some 1709251200000
      else if ts = ''2024-06-01'' then Some 1717200000000
      else None)"

definition example_item_props :: PromptItemProps where
  "example_item_props =
     \<lparr>prompt = example_fragment ''p1'' False 0, onSelect = Some (\<lambda>_. ()),
      onUpdate = Some (\<lambda>_ _ _. ()), onRestoreVersion = Some (\<lambda>_ _. ())\<rparr>"

definition example_item_state :: item_state where
  "example_item_state = \<lparr>isEditing = False, editText = ''draft'', showHistory = True\<rparr>"

section \<open>Properties of the update and restore handlers\<close>

text \<open>What each handler does, by the callback's presence and the promise's outcome.\<close>

lemma handleUpdatePrefix_outcome:
  "handleUpdatePrefix props i t p =
     (case onUpdatePrefix props of
        None \<Rightarrow> ([ToastError ''Failed to update prefix''], Inr ())
      | Some cb \<Rightarrow>
          (case cb i t p of
             Resolves b \<Rightarrow>
               (if b then
                  ([Call (OnUpdatePrefix i t p),
                    ToastSuccess (if p then ''Prefix updated and persisted''
                                  else ''Prefix updated for the current session'')], Inr ())
                else ([Call (OnUpdatePrefix i t p), ToastError ''Failed to update prefix''], Inr ()))
           | Rejects e \<Rightarrow>
               ([Call (OnUpdatePrefix i t p), ConsoleError ''Error updating prefix:'' e,
                 ToastError ''Error updating prefix''], Inr ())))"
  by (simp add: handleUpdatePrefix_def try_catch_def bind_eff_def return_eff_def emit_def
        await_def split: option.split promise.split)

lemma handleUpdateSuffix_outcome:
  "handleUpdateSuffix props i t p =
     (case onUpdateSuffix props of
        None \<Rightarrow> ([ToastError ''Failed to update suffix''], Inr ())
      | Some cb \<Rightarrow>
          (case cb i t p of
             Resolves b \<Rightarrow>
               (if b then
                  ([Call (OnUpdateSuffix i t p),
                    ToastSuccess (if p then ''Suffix updated and persisted''
                                  else ''Suffix updated for the current session'')], Inr ())
                else ([Call (OnUpdateSuffix i t p), ToastError ''Failed to update suffix''], Inr ()))
           | Rejects e \<Rightarrow>
               ([Call (OnUpdateSuffix i t p), ConsoleError ''Error updating suffix:'' e,
                 ToastError ''Error updating suffix''], Inr ())))"
  by (simp add: handleUpdateSuffix_def try_catch_def bind_eff_def return_eff_def emit_def
        await_def split: option.split promise.split)

lemma handleUpdatePhasePrompt_outcome:
  "handleUpdatePhasePrompt props ph i t p =
     (case onUpdatePhasePrompt props of
        None \<Rightarrow> ([ToastError ''Failed to update phase prompt''], Inr ())
      | Some cb \<Rightarrow>
          (case cb ph i t p of
             Resolves b \<Rightarrow>
               (if b then
                  ([Call (OnUpdatePhasePrompt ph i t p),
                    ToastSuccess (if p then ''Phase prompt updated and persisted''
                                  else ''Phase prompt updated for the current session'')], Inr ())
                else ([Call (OnUpdatePhasePrompt ph i t p),
                       ToastError ''Failed to update phase prompt''], Inr ()))
           | Rejects e \<Rightarrow>
               ([Call (OnUpdatePhasePrompt ph i t p), ConsoleError ''Error updating phase prompt:'' e,
                 ToastError ''Error updating phase prompt''], Inr ())))"
  by (simp add: handleUpdatePhasePrompt_def try_catch_def bind_eff_def return_eff_def emit_def
        await_def split: option.split promise.split)

lemma handleRestorePrefixVersion_outcome:
  "handleRestorePrefixVersion props i h =
     (case onUpdatePrefix props of
        None \<Rightarrow> ([ToastError ''Failed to restore prefix version''], Inr ())
      | Some cb \<Rightarrow>
          (case cb i (entry_text h) True of
             Resolves b \<Rightarrow>
               (if b then
                  ([Call (OnUpdatePrefix i (entry_text h) True),
                    ToastSuccess ''Restored previous version of prefix''], Inr ())
                else ([Call (OnUpdatePrefix i (entry_text h) True),
                       ToastError ''Failed to restore prefix version''], Inr ()))
           | Rejects e \<Rightarrow>
               ([Call (OnUpdatePrefix i (entry_text h) True),
                 ConsoleError ''Error restoring prefix version:'' e,
                 ToastError ''Error restoring prefix version''], Inr ())))"
  by (simp add: handleRestorePrefixVersion_def try_catch_def bind_eff_def return_eff_def emit_def
        await_def split: option.split promise.split)

lemma handleRestoreSuffixVersion_outcome:
  "handleRestoreSuffixVersion props i h =
     (case onUpdateSuffix props of
        None \<Rightarrow> ([ToastError ''Failed to restore suffix version''], Inr ())
      | Some cb \<Rightarrow>
          (case cb i (entry_text h) True of
             Resolves b \<Rightarrow>
               (if b then
                  ([Call (OnUpdateSuffix i (entry_text h) True),
                    ToastSuccess ''Restored previous version of suffix''], Inr ())
                else ([Call (OnUpdateSuffix i (entry_text h) True),
                       ToastError ''Failed to restore suffix version''], Inr ()))
           | Rejects e \<Rightarrow>
               ([Call (OnUpdateSuffix i (entry_text h) True),
                 ConsoleError ''Error restoring suffix version:'' e,
                 ToastError ''Error restoring suffix version''], Inr ())))"
  by (simp add: handleRestoreSuffixVersion_def try_catch_def bind_eff_def return_eff_def emit_def
        await_def split: option.split promise.split)

lemma handleRestorePhasePromptVersion_outcome:
  "handleRestorePhasePromptVersion props ph i h =
     (case onUpdatePhasePrompt props of
        None \<Rightarrow> ([ToastError ''Failed to restore phase prompt version''], Inr ())
      | Some cb \<Rightarrow>
          (case cb ph i (entry_text h) True of
             Resolves b \<Rightarrow>
               (if b then
                  ([Call (OnUpdatePhasePrompt ph i (entry_text h) True),
                    ToastSuccess ''Restored previous version of phase prompt''], Inr ())
                else ([Call (OnUpdatePhasePrompt ph i (entry_text h) True),
                       ToastError ''Failed to restore phase prompt version''], Inr ()))
           | Rejects e \<Rightarrow>
               ([Call (OnUpdatePhasePrompt ph i (entry_text h) True),
                 ConsoleError ''Error restoring phase prompt version:'' e,
                 ToastError ''Error restoring phase prompt version''], Inr ())))"
  by (simp add: handleRestorePhasePromptVersion_def try_catch_def bind_eff_def return_eff_def
        emit_def await_def split: option.split promise.split)

text \<open>
  Claim C1. For each of \<open>handleUpdatePrefix\<close>, \<open>handleUpdateSuffix\<close> and
  \<open>handleUpdatePhasePrompt\<close>: when the update callback is there and resolves to \<open>true\<close>,
  exactly one success toast and no error toast is shown; when it is absent, resolves to
  \<open>false\<close> or rejects, exactly one error toast (and no success toast) is shown; and the
  handler always completes normally, never with an exception.
\<close>

theorem update_handlers_toast_feedback:
  "((\<forall>cb. onUpdatePrefix props = Some cb \<and> cb i t p = Resolves True \<longrightarrow>
       length (success_toasts (fst (handleUpdatePrefix props i t p))) = 1 \<and>
       error_toasts (fst (handleUpdatePrefix props i t p)) = []) \<and>
    (onUpdatePrefix props = None \<or>
       (\<exists>cb. onUpdatePrefix props = Some cb \<and>
          (cb i t p = Resolves False \<or> (\<exists>e. cb i t p = Rejects e))) \<longrightarrow>
       length (error_toasts (fst (handleUpdatePrefix props i t p))) = 1 \<and>
       success_toasts (fst (handleUpdatePrefix props i t p)) = []) \<and>
    snd (handleUpdatePrefix props i t p) = Inr ()) \<and>
   ((\<forall>cb. onUpdateSuffix props = Some cb \<and> cb i t p = Resolves True \<longrightarrow>
       length (success_toasts (fst (handleUpdateSuffix props i t p))) = 1 \<and>
       error_toasts (fst (handleUpdateSuffix props i t p)) = []) \<and>
    (onUpdateSuffix props = None \<or>
       (\<exists>cb. onUpdateSuffix props = Some cb \<and>
          (cb i t p = Resolves False \<or> (\<exists>e. cb i t p = Rejects e))) \<longrightarrow>
       length (error_toasts (fst (handleUpdateSuffix props i t p))) = 1 \<and>
       success_toasts (fst (handleUpdateSuffix props i t p)) = []) \<and>
    snd (handleUpdateSuffix props i t p) = Inr ()) \<and>
   ((\<forall>cb. onUpdatePhasePrompt props = Some cb \<and> cb ph i t p = Resolves True \<longrightarrow>
       length (success_toasts (fst (handleUpdatePhasePrompt props ph i t p))) = 1 \<and>
       error_toasts (fst (handleUpdatePhasePrompt props ph i t p)) = []) \<and>
    (onUpdatePhasePrompt props = None \<or>
       (\<exists>cb. onUpdatePhasePrompt props = Some cb \<and>
          (cb ph i t p = Resolves False \<or> (\<exists>e. cb ph i t p = Rejects e))) \<longrightarrow>
       length (error_toasts (fst (handleUpdatePhasePrompt props ph i t p))) = 1 \<and>
       success_toasts (fst (handleUpdatePhasePrompt props ph i t p)) = []) \<and>
    snd (handleUpdatePhasePrompt props ph i t p) = Inr ())"
proof (intro conjI)
  show "\<forall>cb. onUpdatePrefix props = Some cb \<and> cb i t p = Resolves True \<longrightarrow>
       length (success_toasts (fst (handleUpdatePrefix props i t p))) = 1 \<and>
       error_toasts (fst (handleUpdatePrefix props i t p)) = []"
    by (simp add: handleUpdatePrefix_outcome)
  show "onUpdatePrefix props = None \<or>
       (\<exists>cb. onUpdatePrefix props = Some cb \<and>
          (cb i t p = Resolves False \<or> (\<exists>e. cb i t p = Rejects e))) \<longrightarrow>
       length (error_toasts (fst (handleUpdatePrefix props i t p))) = 1 \<and>
       success_toasts (fst (handleUpdatePrefix props i t p)) = []"
    by (auto simp: handleUpdatePrefix_outcome)
  show "snd (handleUpdatePrefix props i t p) = Inr ()"
    by (simp add: handleUpdatePrefix_outcome split: option.split promise.split)
  show "\<forall>cb. onUpdateSuffix props = Some cb \<and> cb i t p = Resolves True \<longrightarrow>
       length (success_toasts (fst (handleUpdateSuffix props i t p))) = 1 \<and>
       error_toasts (fst (handleUpdateSuffix props i t p)) = []"
    by (simp add: handleUpdateSuffix_outcome)
  show "onUpdateSuffix props = None \<or>
       (\<exists>cb. onUpdateSuffix props = Some cb \<and>
          (cb i t p = Resolves False \<or> (\<exists>e. cb i t p = Rejects e))) \<longrightarrow>
       length (error_toasts (fst (handleUpdateSuffix props i t p))) = 1 \<and>
       success_toasts (fst (handleUpdateSuffix props i t p)) = []"
    by (auto simp: handleUpdateSuffix_outcome)
  show "snd (handleUpdateSuffix props i t p) = Inr ()"
    by (simp add: handleUpdateSuffix_outcome split: option.split promise.split)
  show "\<forall>cb. onUpdatePhasePrompt props = Some cb \<and> cb ph i t p = Resolves True \<longrightarrow>
       length (success_toasts (fst (handleUpdatePhasePrompt props ph i t p))) = 1 \<and>
       error_toasts (fst (handleUpdatePhasePrompt props ph i t p)) = []"
    by (simp add: handleUpdatePhasePrompt_outcome)
  show "onUpdatePhasePrompt props = None \<or>
       (\<exists>cb. onUpdatePhasePrompt props = Some cb \<and>
          (cb ph i t p = Resolves False \<or> (\<exists>e. cb ph i t p = Rejects e))) \<longrightarrow>
       length (error_toasts (fst (handleUpdatePhasePrompt props ph i t p))) = 1 \<and>
       success_toasts (fst (handleUpdatePhasePrompt props ph i t p)) = []"
    by (auto simp: handleUpdatePhasePrompt_outcome)
  show "snd (handleUpdatePhasePrompt props ph i t p) = Inr ()"
    by (simp add: handleUpdatePhasePrompt_outcome split: option.split promise.split)
qed

theorem update_handlers_toast_feedback_witness:
  "length (success_toasts (fst (handleUpdatePrefix (example_props (Resolves True)) ''p1'' ''new'' True))) = 1 \<and>
   error_toasts (fst (handleUpdatePrefix (example_props (Resolves True)) ''p1'' ''new'' True)) = [] \<and>
   length (error_toasts (fst (handleUpdateSuffix (example_props (Rejects ''offline'')) ''s1'' ''new'' False))) = 1 \<and>
   length (error_toasts (fst (handleUpdatePhasePrompt (example_props (Resolves False)) ''ph'' ''q1'' ''new'' True))) = 1 \<and>
   length (error_toasts (fst (handleUpdatePrefix example_no_callbacks ''p1'' ''new'' True))) = 1 \<and>
   snd (handleUpdatePrefix (example_props (Rejects ''offline'')) ''p1'' ''new'' True) = Inr ()"
  using update_handlers_toast_feedback [of "example_props (Resolves True)" "''p1''" "''new''" True "''ph''"]
    update_handlers_toast_feedback [of "example_props (Rejects ''offline'')" "''s1''" "''new''" False "''ph''"]
    update_handlers_toast_feedback [of "example_props (Resolves False)" "''q1''" "''new''" True "''ph''"]
    update_handlers_toast_feedback [of example_no_callbacks "''p1''" "''new''" True "''ph''"]
    update_handlers_toast_feedback [of "example_props (Rejects ''offline'')" "''p1''" "''new''" True "''ph''"]
  by (simp add: example_props_def example_no_callbacks_def)

lemma calls_call_if_present [simp]:
  "calls (call_if_present cb c) = (case cb of None \<Rightarrow> [] | Some _ \<Rightarrow> [c])"
  by (simp add: call_if_present_def split: option.split)

lemma handleDropdownTrigger_events [simp]:
  "snd (handleDropdownTrigger r ty s) = [PreventDefault]"
  by (simp add: handleDropdownTrigger_def Let_def)

lemma handleDropdownTrigger_opens [simp]:
  "showDropdown (fst (handleDropdownTrigger r ty s))"
  "dropdownType (fst (handleDropdownTrigger r ty s)) = ty"
  by (simp_all add: handleDropdownTrigger_def Let_def)

lemma handleKeyDown_no_restore:
  "c \<in> set (calls (snd (handleKeyDown props r ev s))) \<Longrightarrow> \<not> is_restore_call c"
  by (auto simp: handleKeyDown_def split: if_splits option.splits)

lemma handleDropdownSelect_no_restore:
  "c \<in> set (calls (snd (handleDropdownSelect props item k ph s))) \<Longrightarrow> \<not> is_restore_call c"
  by (auto simp: handleDropdownSelect_def split: if_splits option.splits)

lemma builder_invoke_no_restore:
  "c \<in> set (calls (snd (builder_invoke props iv (d, s)))) \<Longrightarrow> \<not> is_restore_call c"
proof (cases iv)
  case (KeyDown r ev)
  then show "c \<in> set (calls (snd (builder_invoke props iv (d, s)))) \<Longrightarrow> \<not> is_restore_call c"
    using handleKeyDown_no_restore [of c props r ev s] by (simp split: prod.splits)
next
  case (DropdownSelect item k ph)
  then show "c \<in> set (calls (snd (builder_invoke props iv (d, s)))) \<Longrightarrow> \<not> is_restore_call c"
    using handleDropdownSelect_no_restore [of c props item k ph s] by (simp split: prod.splits)
qed (auto simp: handleUpdatePrefix_outcome handleUpdateSuffix_outcome
       handleUpdatePhasePrompt_outcome handleRestorePrefixVersion_outcome
       handleRestoreSuffixVersion_outcome handleRestorePhasePromptVersion_outcome
       handleCopyClick_def copyToClipboard_def handleGenerateClick_def
       handleTidyAndGenerateClick_def handleMainTextChange_def
     split: option.splits promise.splits if_splits)

text \<open>
  Claim C3. With the update callback supplied, each restore handler calls it exactly once,
  with the fragment's id (and phase id), the history entry's text and \<open>persistChange = true\<close>,
  and calls nothing else; and whatever handler of \<open>PromptBuilder\<close> runs, none of
  \<open>onRestorePrefix\<close>, \<open>onRestoreSuffix\<close>, \<open>onRestorePhasePrompt\<close> is invoked.
\<close>

theorem restore_is_persisted_update:
  "(\<forall>cb. onUpdatePrefix props = Some cb \<longrightarrow>
      calls (fst (handleRestorePrefixVersion props i e)) = [OnUpdatePrefix i (entry_text e) True]) \<and>
   (\<forall>cb. onUpdateSuffix props = Some cb \<longrightarrow>
      calls (fst (handleRestoreSuffixVersion props i e)) = [OnUpdateSuffix i (entry_text e) True]) \<and>
   (\<forall>cb. onUpdatePhasePrompt props = Some cb \<longrightarrow>
      calls (fst (handleRestorePhasePromptVersion props ph i e))
        = [OnUpdatePhasePrompt ph i (entry_text e) True]) \<and>
   (\<forall>c \<in> set (calls (snd (builder_invoke props iv (d, s)))). \<not> is_restore_call c)"
proof (intro conjI)
  show "\<forall>cb. onUpdatePrefix props = Some cb \<longrightarrow>
      calls (fst (handleRestorePrefixVersion props i e)) = [OnUpdatePrefix i (entry_text e) True]"
    by (simp add: handleRestorePrefixVersion_outcome split: promise.split)
  show "\<forall>cb. onUpdateSuffix props = Some cb \<longrightarrow>
      calls (fst (handleRestoreSuffixVersion props i e)) = [OnUpdateSuffix i (entry_text e) True]"
    by (simp add: handleRestoreSuffixVersion_outcome split: promise.split)
  show "\<forall>cb. onUpdatePhasePrompt props = Some cb \<longrightarrow>
      calls (fst (handleRestorePhasePromptVersion props ph i e))
        = [OnUpdatePhasePrompt ph i (entry_text e) True]"
    by (simp add: handleRestorePhasePromptVersion_outcome split: promise.split)
  show "\<forall>c \<in> set (calls (snd (builder_invoke props iv (d, s)))). \<not> is_restore_call c"
    using builder_invoke_no_restore by blast
qed

theorem restore_is_persisted_update_witness:
  "calls (fst (handleRestorePrefixVersion (example_props (Resolves True)) ''p1''
            (example_entry ''2024-01-01'' ''old text''))) = [OnUpdatePrefix ''p1'' ''old text'' True] \<and>
   calls (fst (handleRestoreSuffixVersion (example_props (Resolves False)) ''s1''
            (example_entry ''2024-01-01'' ''old text''))) = [OnUpdateSuffix ''s1'' ''old text'' True] \<and>
   calls (fst (handleRestorePhasePromptVersion (example_props (Rejects ''offline'')) ''ph'' ''q1''
            (example_entry ''2024-01-01'' ''old text'')))
      = [OnUpdatePhasePrompt ''ph'' ''q1'' ''old text'' True] \<and>
   calls (snd (builder_invoke (example_props (Resolves True))
        (RestorePrefixVersion ''p1'' (example_entry ''2024-01-01'' ''old text''))
        (example_data, example_state))) = [OnUpdatePrefix ''p1'' ''old text'' True] \<and>
   \<not> is_restore_call (OnUpdatePrefix ''p1'' ''old text'' True)"
  using restore_is_persisted_update [of "example_props (Resolves True)" "''p1''"
          "example_entry ''2024-01-01'' ''old text''" "''ph''"
          "RestorePrefixVersion ''p1'' (example_entry ''2024-01-01'' ''old text'')" example_data example_state]
    restore_is_persisted_update [of "example_props (Resolves False)" "''s1''"
          "example_entry ''2024-01-01'' ''old text''" "''ph''"
          "RestorePrefixVersion ''p1'' (example_entry ''2024-01-01'' ''old text'')" example_data example_state]
    restore_is_persisted_update [of "example_props (Rejects ''offline'')" "''q1''"
          "example_entry ''2024-01-01'' ''old text''" "''ph''"
          "RestorePrefixVersion ''p1'' (example_entry ''2024-01-01'' ''old text'')" example_data example_state]
  by (simp add: example_props_def example_entry_def handleRestorePrefixVersion_outcome)

section \<open>Properties of the keyboard handler\<close>

lemma charAt_newline:
  "charAt v i = [newline] \<longleftrightarrow> i < length v \<and> v ! i = newline"
  by (simp add: charAt_def)

text \<open>
  Claim C7. In the main textarea, Ctrl+Enter invokes \<open>onGenerate\<close> exactly once and
  Ctrl+t invokes \<open>onTidyAndGenerate\<close> exactly once (the callback being supplied), each
  with the event's default prevented and with the component's state, hence the picker
  dropdown, left as it was.
\<close>

theorem ctrl_shortcuts_generate:
  "(\<forall>g. ctrlKey ev \<and> key ev = ''Enter'' \<and> onGenerate props = Some g \<longrightarrow>
      calls (snd (handleKeyDown props r ev s)) = [OnGenerate] \<and>
      PreventDefault \<in> set (snd (handleKeyDown props r ev s)) \<and>
      fst (handleKeyDown props r ev s) = s) \<and>
   (\<forall>g. ctrlKey ev \<and> key ev = ''t'' \<and> onTidyAndGenerate props = Some g \<longrightarrow>
      calls (snd (handleKeyDown props r ev s)) = [OnTidyAndGenerate] \<and>
      PreventDefault \<in> set (snd (handleKeyDown props r ev s)) \<and>
      fst (handleKeyDown props r ev s) = s)"
  by (simp add: handleKeyDown_def)

theorem ctrl_shortcuts_generate_witness:
  "calls (snd (handleKeyDown (example_props (Resolves True)) (Some example_textarea)
            (example_keydown True ''Enter'') example_state)) = [OnGenerate] \<and>
   calls (snd (handleKeyDown (example_props (Resolves True)) (Some example_textarea)
            (example_keydown True ''t'') example_state)) = [OnTidyAndGenerate] \<and>
   \<not> showDropdown (fst (handleKeyDown (example_props (Resolves True)) (Some example_textarea)
            (example_keydown True ''t'') example_state))"
  using ctrl_shortcuts_generate [of "example_keydown True ''Enter''" "example_props (Resolves True)"
          "Some example_textarea" example_state]
    ctrl_shortcuts_generate [of "example_keydown True ''t''" "example_props (Resolves True)"
          "Some example_textarea" example_state]
  by (simp add: example_keydown_def example_props_def example_state_def)

text \<open>
  Claim C2. For a keydown that is not Ctrl+Enter or Ctrl+t: when the cursor is at the start
  of a line (\<open>selectionStart\<close> is 0 or the character before it is a newline) and the key
  is one of \<open>/\<close>, \<open>#\<close>, \<open>$\<close>, \<open>@\<close>, the dropdown is shown, its type is
  \<open>all\<close>, \<open>phase\<close>, \<open>prefix\<close>, \<open>suffix\<close> respectively, and the default is prevented;
  in every other case (another key, or another cursor position) the handler changes
  nothing and prevents nothing, so the dropdown is not opened.
\<close>

theorem picker_opens_at_line_start:
  assumes "\<not> (ctrlKey ev \<and> (key ev = ''Enter'' \<or> key ev = ''t''))"
  shows
  "((selectionStart (currentTarget ev) = 0 \<or>
      (selectionStart (currentTarget ev) - 1 < length (ta_value (currentTarget ev)) \<and>
       ta_value (currentTarget ev) ! (selectionStart (currentTarget ev) - 1) = newline)) \<and>
     key ev \<in> {''/'', ''#'', ''$'', ''@''} \<longrightarrow>
       showDropdown (fst (handleKeyDown props r ev s)) \<and>
       dropdownType (fst (handleKeyDown props r ev s)) =
         (if key ev = ''/'' then DAll else if key ev = ''#'' then DPhase
          else if key ev = ''$'' then DPrefix else DSuffix) \<and>
       snd (handleKeyDown props r ev s) = [PreventDefault]) \<and>
   (\<not> ((selectionStart (currentTarget ev) = 0 \<or>
      (selectionStart (currentTarget ev) - 1 < length (ta_value (currentTarget ev)) \<and>
       ta_value (currentTarget ev) ! (selectionStart (currentTarget ev) - 1) = newline)) \<and>
     key ev \<in> {''/'', ''#'', ''$'', ''@''}) \<longrightarrow>
       handleKeyDown props r ev s = (s, []))"
  using assms by (auto simp: handleKeyDown_def charAt_newline)

theorem picker_opens_at_line_start_witness:
  "showDropdown (fst (handleKeyDown example_no_callbacks (Some example_textarea)
       (example_keydown False ''$'') example_state)) \<and>
   dropdownType (fst (handleKeyDown example_no_callbacks (Some example_textarea)
       (example_keydown False ''$'') example_state)) = DPrefix \<and>
   handleKeyDown example_no_callbacks (Some example_textarea)
       (example_keydown False ''x'') example_state = (example_state, []) \<and>
   handleKeyDown example_no_callbacks (Some example_textarea)
       ((example_keydown False ''$'')\<lparr>currentTarget := example_textarea\<lparr>selectionStart := 3\<rparr>\<rparr>)
       example_state = (example_state, [])"
proof -
  let ?mid = "(example_keydown False ''$'')\<lparr>currentTarget := example_textarea\<lparr>selectionStart := 3\<rparr>\<rparr>"
  have a: "\<not> (ctrlKey (example_keydown False k) \<and>
             (key (example_keydown False k) = ''Enter'' \<or> key (example_keydown False k) = ''t''))" for k
    by (simp add: example_keydown_def)
  have b: "\<not> (ctrlKey ?mid \<and> (key ?mid = ''Enter'' \<or> key ?mid = ''t''))"
    by (simp add: example_keydown_def)
  show ?thesis
    using picker_opens_at_line_start [OF a, of "''$''" example_no_callbacks "Some example_textarea" example_state]
      picker_opens_at_line_start [OF a, of "''x''" example_no_callbacks "Some example_textarea" example_state]
      picker_opens_at_line_start [OF b, of example_no_callbacks "Some example_textarea" example_state]
    by (simp add: example_keydown_def example_textarea_def newline_def)
qed

lemma split_on_not_Nil [simp]: "split_on c s \<noteq> []"
  by (induction s) (auto split: list.split)

lemma length_split_on: "length (split_on c s) = Suc (count_list s c)"
  by (induction s) (auto split: list.split)

lemma split_on_absent: "c \<notin> set s \<Longrightarrow> split_on c s = [s]"
  by (induction s) auto

lemma last_split_on_after:
  "c \<notin> set ys \<Longrightarrow> last (split_on c (xs @ c # ys)) = ys"
proof (induction xs)
  case Nil
  then show ?case by (simp add: split_on_absent)
next
  case (Cons x xs)
  have two: "2 \<le> length (split_on c (xs @ c # ys))"
    by (simp add: length_split_on)
  show ?case
  proof (cases "x = c")
    case True
    with Cons show ?thesis by simp
  next
    case False
    obtain l ls where sp: "split_on c (xs @ c # ys) = l # ls"
      by (cases "split_on c (xs @ c # ys)") auto
    with two have "ls \<noteq> []" by auto
    with sp False Cons show ?thesis by simp
  qed
qed

lemma last_split_on:
  "last (split_on c s) = rev (takeWhile (\<lambda>x. x \<noteq> c) (rev s))"
proof (cases "c \<in> set s")
  case False
  then have tw: "takeWhile (\<lambda>x. x \<noteq> c) (rev s) = rev s"
    by (intro takeWhile_eq_all_conv [THEN iffD2]) auto
  show ?thesis unfolding tw using False by (simp add: split_on_absent)
next
  case True
  then obtain xs ys where s: "s = xs @ c # ys" and ys: "c \<notin> set ys"
    using split_list_last [of c s] by blast
  have "takeWhile (\<lambda>x. x \<noteq> c) (rev ys @ c # rev xs) = rev ys"
    using ys by (simp add: takeWhile_append)
  with s ys show ?thesis by (simp add: last_split_on_after)
qed

lemma handleDropdownTrigger_position:
  "dropdownPosition (fst (handleDropdownTrigger (Some ta) ty s)) =
     \<lparr>top_px = count_list (take (selectionStart ta) (ta_value ta)) newline * 24 + 30,
      left_px = length (takeWhile (\<lambda>c. c \<noteq> newline)
                  (rev (take (selectionStart ta) (ta_value ta)))) * 8 + 10\<rparr>"
proof -
  let ?text = "take (selectionStart ta) (ta_value ta)"
  have "split_on newline ?text ! (length (split_on newline ?text) - 1)
          = last (split_on newline ?text)"
    by (simp add: last_conv_nth)
  then show ?thesis
    by (simp add: handleDropdownTrigger_def Let_def length_split_on last_split_on)
qed

text \<open>
  Claim C5. When a picker trigger fires (with the textarea mounted), the dropdown's position
  is: top = the number of newlines before the cursor times 24 plus 30, left = the length
  of the current line up to the cursor (the characters after the last newline before the
  cursor) times 8 plus 10.
\<close>

theorem picker_position_metrics:
  assumes "\<not> (ctrlKey ev \<and> (key ev = ''Enter'' \<or> key ev = ''t''))"
    and "selectionStart (currentTarget ev) = 0 \<or>
         (selectionStart (currentTarget ev) - 1 < length (ta_value (currentTarget ev)) \<and>
          ta_value (currentTarget ev) ! (selectionStart (currentTarget ev) - 1) = newline)"
    and "key ev \<in> {''/'', ''#'', ''$'', ''@''}"
  shows "dropdownPosition (fst (handleKeyDown props (Some ta) ev s)) =
     \<lparr>top_px = count_list (take (selectionStart ta) (ta_value ta)) newline * 24 + 30,
      left_px = length (takeWhile (\<lambda>c. c \<noteq> newline)
                  (rev (take (selectionStart ta) (ta_value ta)))) * 8 + 10\<rparr>"
proof -
  from assms obtain ty where "handleKeyDown props (Some ta) ev s = handleDropdownTrigger (Some ta) ty s"
    by (auto simp: handleKeyDown_def charAt_newline)
  then show ?thesis by (simp add: handleDropdownTrigger_position)
qed

theorem picker_position_metrics_witness:
  "dropdownPosition (fst (handleKeyDown example_no_callbacks (Some example_textarea)
       (example_keydown False ''#'') example_state)) = \<lparr>top_px = 54, left_px = 10\<rparr>"
proof -
  have a: "\<not> (ctrlKey (example_keydown False ''#'') \<and>
             (key (example_keydown False ''#'') = ''Enter'' \<or> key (example_keydown False ''#'') = ''t''))"
    by (simp add: example_keydown_def)
  have b: "selectionStart (currentTarget (example_keydown False ''#'')) = 0 \<or>
         (selectionStart (currentTarget (example_keydown False ''#'')) - 1
            < length (ta_value (currentTarget (example_keydown False ''#''))) \<and>
          ta_value (currentTarget (example_keydown False ''#''))
            ! (selectionStart (currentTarget (example_keydown False ''#'')) - 1) = newline)"
    by (simp add: example_keydown_def example_textarea_def)
  have c: "key (example_keydown False ''#'') \<in> {''/'', ''#'', ''$'', ''@''}"
    by (simp add: example_keydown_def)
  show ?thesis
    using picker_position_metrics [OF a b c, of example_no_callbacks example_textarea example_state]
    by (simp add: example_textarea_def newline_def)
qed

section \<open>Properties of the picker dropdown\<close>

lemma not_deprecated_set: "p \<in> set (not_deprecated xs) \<longleftrightarrow> p \<in> set xs \<and> \<not> deprecated p"
  by (simp add: not_deprecated_def)

lemma phase_section_active:
  "phase_section d phase = Inr ns \<Longrightarrow> ItemButton k p ph \<in> set ns \<Longrightarrow> \<not> deprecated p"
  by (auto simp: phase_section_def not_deprecated_set split: property.splits)

lemma map_throwing_Inr:
  "map_throwing f xs = Inr ys \<Longrightarrow> list_all2 (\<lambda>x y. f x = Inr y) xs ys"
  by (induction xs arbitrary: ys) (auto split: sum.splits)

lemma map_throwing_completes:
  "(\<exists>ys. map_throwing f xs = Inr ys) \<longleftrightarrow> (\<forall>x \<in> set xs. \<exists>y. f x = Inr y)"
  by (induction xs) (auto split: sum.splits)

lemma phase_sections_active:
  assumes "map_throwing (phase_section d) xs = Inr sections"
    and "ns \<in> set sections"
    and "ItemButton k p ph \<in> set ns"
  shows "\<not> deprecated p"
proof -
  from map_throwing_Inr [OF assms(1)] assms(2) obtain phase where "phase_section d phase = Inr ns"
    by (auto simp: list_all2_conv_all_nth in_set_conv_nth)
  with assms(3) show ?thesis by (rule phase_section_active [rotated])
qed

text \<open>
  Claim C4. Whatever the dropdown type, a fragment offered in the picker dropdown has
  \<open>deprecated = false\<close>.
\<close>

theorem dropdown_lists_no_deprecated:
  "ItemButton k p ph \<in> set (displayed (dropdownList d ty)) \<Longrightarrow> \<not> deprecated p"
  by (auto simp: dropdownList_def displayed_def not_deprecated_set
      dest: phase_sections_active in_set_takeD split: if_splits sum.splits)

theorem dropdown_lists_no_deprecated_witness:
  "ItemButton KPrefix (example_fragment ''p3'' False 2) None
     \<in> set (displayed (dropdownList example_data DPrefix)) \<and>
   \<not> deprecated (example_fragment ''p3'' False 2) \<and>
   ItemButton KPrefix (example_fragment ''p2'' True 1) None
     \<notin> set (displayed (dropdownList example_data DPrefix))"
proof -
  have m: "ItemButton KPrefix (example_fragment ''p3'' False 2) None
             \<in> set (displayed (dropdownList example_data DPrefix))"
    by (simp add: dropdownList_def displayed_def example_data_def example_fragment_def
          not_deprecated_def no_results_def)
  have n: "ItemButton KPrefix (example_fragment ''p2'' True 1) None
             \<notin> set (displayed (dropdownList example_data DPrefix))"
    by (simp add: dropdownList_def displayed_def example_data_def example_fragment_def
          not_deprecated_def no_results_def)
  show ?thesis
    using dropdown_lists_no_deprecated [OF m] m n by simp
qed

lemma listed_append [simp]: "listed k (xs @ ys) = listed k xs @ listed k ys"
  by (induction k xs rule: listed.induct) auto

lemma listed_buttons [simp]:
  "listed k (map (\<lambda>p. ItemButton k' p ph) fs) = (if k' = k then fs else [])"
  by (induction fs) auto

lemma listed_phase_section:
  "phase_section d phase = Inr ns \<Longrightarrow>
   listed k ns =
     (if k = KPhase then
        (case map_of (phasePromptsMap d) (phase_id phase) of
           None \<Rightarrow> [] | Some pp \<Rightarrow> filter (\<lambda>p. \<not> deprecated p) (prompts pp))
      else [])"
  by (auto simp: phase_section_def get_property_def not_deprecated_def
      split: option.splits if_splits)

lemma listed_phase_sections:
  "map_throwing (phase_section d) xs = Inr sections \<Longrightarrow>
   listed k (concat sections) =
     (if k = KPhase then
        concat (map (\<lambda>phase.
          case map_of (phasePromptsMap d) (phase_id phase) of
            None \<Rightarrow> []
          | Some pp \<Rightarrow> filter (\<lambda>p. \<not> deprecated p) (prompts pp)) xs)
      else [])"
proof (induction xs arbitrary: sections)
  case Nil
  then show ?case by simp
next
  case (Cons x xs)
  from Cons.prems obtain ns rest where ns: "phase_section d x = Inr ns"
    and rest: "map_throwing (phase_section d) xs = Inr rest" and s: "sections = ns # rest"
    by (auto split: sum.splits)
  show ?case
    using Cons.IH [OF rest] listed_phase_section [OF ns, of k] s by simp
qed

lemma phase_section_completes:
  "(\<exists>ns. phase_section d phase = Inr ns) \<longleftrightarrow>
   (map_of (phasePromptsMap d) (phase_id phase) = None
      \<longrightarrow> phase_id phase \<notin> set object_prototype_keys)"
  by (auto simp: phase_section_def get_property_def split: option.splits)

lemma dropdownList_completes:
  "(\<exists>ns. dropdownList d ty = Inr ns) \<longleftrightarrow>
   (ty = DPhase \<or> ty = DAll \<longrightarrow>
      (\<forall>phase \<in> set (phases (phasesConfig d)).
         map_of (phasePromptsMap d) (phase_id phase) = None
           \<longrightarrow> phase_id phase \<notin> set object_prototype_keys))"
proof -
  have "(\<exists>ns. dropdownList d ty = Inr ns) \<longleftrightarrow>
        (ty = DPhase \<or> ty = DAll \<longrightarrow>
           (\<exists>ys. map_throwing (phase_section d) (phases (phasesConfig d)) = Inr ys))"
    by (auto simp: dropdownList_def split: sum.splits)
  then show ?thesis
    by (simp only: map_throwing_completes phase_section_completes)
qed

text \<open>
  Claim C9. With the dropdown type \<open>all\<close>: whenever the render of the list completes, the
  prefixes listed are the first 3 of the non-deprecated prefixes in collection order,
  likewise the suffixes, and the phase prompts listed are all the non-deprecated prompts of
  every configured phase; at most 3 prefixes and at most 3 suffixes are shown in any case;
  and the render completes exactly when no configured phase that lacks an entry of its own
  has an id that every plain object inherits.
\<close>

theorem all_dropdown_limits_prefixes_suffixes:
  "(dropdownList d DAll = Inr ns \<longrightarrow>
      listed KPrefix ns
        = take 3 (filter (\<lambda>p. \<not> deprecated p) (prefixes (prefixesData d))) \<and>
      listed KSuffix ns
        = take 3 (filter (\<lambda>p. \<not> deprecated p) (suffixes (suffixesData d))) \<and>
      listed KPhase ns
        = concat (map (\<lambda>phase.
            case map_of (phasePromptsMap d) (phase_id phase) of
              None \<Rightarrow> []
            | Some pp \<Rightarrow> filter (\<lambda>p. \<not> deprecated p) (prompts pp))
          (phases (phasesConfig d)))) \<and>
   length (listed KPrefix (displayed (dropdownList d DAll))) \<le> 3 \<and>
   length (listed KSuffix (displayed (dropdownList d DAll))) \<le> 3 \<and>
   ((\<exists>ns'. dropdownList d DAll = Inr ns') \<longleftrightarrow>
      (\<forall>phase \<in> set (phases (phasesConfig d)).
         map_of (phasePromptsMap d) (phase_id phase) = None
           \<longrightarrow> phase_id phase \<notin> set object_prototype_keys))"
proof -
  have nr: "\<not> no_results d DAll"
    by (simp add: no_results_def)
  have exact: "listed KPrefix ns'
        = take 3 (filter (\<lambda>p. \<not> deprecated p) (prefixes (prefixesData d))) \<and>
      listed KSuffix ns'
        = take 3 (filter (\<lambda>p. \<not> deprecated p) (suffixes (suffixesData d))) \<and>
      listed KPhase ns'
        = concat (map (\<lambda>phase.
            case map_of (phasePromptsMap d) (phase_id phase) of
              None \<Rightarrow> []
            | Some pp \<Rightarrow> filter (\<lambda>p. \<not> deprecated p) (prompts pp))
          (phases (phasesConfig d)))"
    if "dropdownList d DAll = Inr ns'" for ns'
  proof -
    from that obtain sections
      where sec: "map_throwing (phase_section d) (phases (phasesConfig d)) = Inr sections"
      and ns': "ns' = concat sections @
             SectionHeader ''Prefixes'' #
             map (\<lambda>p. ItemButton KPrefix p None)
               (take 3 (not_deprecated (prefixes (prefixesData d)))) @
             SectionHeader ''Suffixes'' #
             map (\<lambda>p. ItemButton KSuffix p None)
               (take 3 (not_deprecated (suffixes (suffixesData d))))"
      by (auto simp: dropdownList_def nr split: sum.splits)
    show ?thesis
      unfolding ns' by (simp add: listed_phase_sections [OF sec] not_deprecated_def)
  qed
  have le: "length (listed KPrefix (displayed (dropdownList d DAll))) \<le> 3 \<and>
            length (listed KSuffix (displayed (dropdownList d DAll))) \<le> 3"
  proof (cases "dropdownList d DAll")
    case (Inl e)
    then show ?thesis by (simp add: displayed_def)
  next
    case (Inr ns')
    with exact [OF Inr] show ?thesis by (simp add: displayed_def)
  qed
  from exact le dropdownList_completes [of d DAll] show ?thesis
    by simp
qed

theorem all_dropdown_limits_prefixes_suffixes_witness:
  "map frag_id (listed KPrefix (displayed (dropdownList example_data DAll)))
     = [''p1'', ''p3'', ''p4''] \<and>
   listed KSuffix (displayed (dropdownList example_data DAll)) = [] \<and>
   map frag_id (listed KPhase (displayed (dropdownList example_data DAll)))
     = [''q1'', ''q2'', ''q4'', ''q5''] \<and>
   dropdownList example_inherited_data DAll = Inl ''TypeError''"
proof -
  have ok: "\<exists>ns. dropdownList example_data DAll = Inr ns"
    by (simp add: dropdownList_def phase_section_def get_property_def example_data_def
          object_prototype_keys_def)
  then obtain ns where ns: "dropdownList example_data DAll = Inr ns" ..
  have bad: "dropdownList example_inherited_data DAll = Inl ''TypeError''"
    by (simp add: dropdownList_def phase_section_def get_property_def
          example_inherited_data_def object_prototype_keys_def)
  show ?thesis
    using all_dropdown_limits_prefixes_suffixes [of example_data ns] ns bad
    by (simp add: displayed_def example_data_def example_fragment_def)
qed






section \<open>Properties of the history dialog and of the data\<close>

lemma mset_insert_by: "mset (insert_by cmp x xs) = add_mset x (mset xs)"
  by (induction xs) auto

lemma mset_sort_by: "mset (sort_by cmp xs) = mset xs"
  unfolding sort_by_def by (induction xs) (auto simp: mset_insert_by)




lemma mset_sort_order: "mset (sort_order engine cmp xs) = mset xs"
  by (simp add: sort_order_def mset_sort_by Let_def)

lemma sort_order_Nil_iff: "sort_order engine cmp xs = [] \<longleftrightarrow> xs = []"
  using mset_sort_order [of engine cmp xs] by (metis mset_zero_iff)

lemma sort_order_Nil [simp]: "sort_order engine cmp [] = []"
  by (simp add: sort_order_Nil_iff)



lemma sortedHistory_eq:
  "sortedHistory engine getTime h props =
     (h @ [sort_order engine (compareFn getTime) (arr h (history_log (prompt props)))], length h)"
  by (simp add: sortedHistory_def spread_def array_sort_def)





lemma shown_entries_cards [simp]: "shown_entries (map HistoryCard es) = es"
  by (induction es) auto




lemma mutations_call_if_present [simp]: "mutations (call_if_present cb c) = []"
  by (simp add: call_if_present_def split: option.split)

lemma handleKeyDown_no_mutation: "mutations (snd (handleKeyDown props r ev s)) = []"
  by (simp add: handleKeyDown_def handleDropdownTrigger_def Let_def)

lemma handleDropdownSelect_no_mutation:
  "mutations (snd (handleDropdownSelect props item k ph s)) = []"
  by (simp add: handleDropdownSelect_def split: option.split)

lemma builder_invoke_no_mutation: "mutations (snd (builder_invoke props iv (d, s))) = []"
proof (cases iv)
  case (KeyDown r ev)
  then show ?thesis
    using handleKeyDown_no_mutation [of props r ev s] by (auto split: prod.split)
next
  case (DropdownSelect item k ph)
  then show ?thesis
    using handleDropdownSelect_no_mutation [of props item k ph s] by (auto split: prod.split)
qed (simp_all add: handleUpdatePrefix_outcome handleUpdateSuffix_outcome
       handleUpdatePhasePrompt_outcome handleRestorePrefixVersion_outcome
       handleRestoreSuffixVersion_outcome handleRestorePhasePromptVersion_outcome
       handleCopyClick_def copyToClipboard_def handleGenerateClick_def
       handleTidyAndGenerateClick_def handleMainTextChange_def
     split: option.split promise.split)

lemma item_invoke_handlers:
  assumes "iiv \<noteq> ItemRender"
  shows "fst (fst (item_invoke engine getTime iprops iiv (d, st))) = d"
    and "mutations (snd (item_invoke engine getTime iprops iiv (d, st))) = []"
  using assms
  by (cases iiv; simp add: handleEdit_def handleUpdate_def handleSelect_def
        handleRestoreVersion_def)+

lemma item_invoke_render:
  "item_invoke engine getTime iprops ItemRender (d, st) =
     ((d\<lparr>arrays := arrays d @ [sort_order engine (compareFn getTime)
                                   (arr (arrays d) (history_log (prompt iprops)))]\<rparr>, st),
      [Mutate (HistoryArray (length (arrays d)))])"
  by (simp add: sortedHistory_eq)

text \<open>
  Claim C6. No handler invocation of \<open>PromptBuilder\<close> (update, restore, select, deprecate,
  create and the others) changes an object in place, and the data of the props is the
  same after it. No handler invocation of \<open>PromptItem\<close> changes an object in place
  either; its render changes one array in place, an array that did not exist before, and
  the prefixes, the suffixes, the phases, the phase prompts and every array that existed
  before are the same after it.
\<close>

theorem handlers_leave_props_data_unchanged:
  "mutations (snd (builder_invoke props iv (d, s))) = [] \<and>
   fst (fst (builder_invoke props iv (d, s))) = d \<and>
   (\<forall>m \<in> set (mutations (snd (item_invoke engine getTime iprops iiv (d, st)))).
      \<exists>a. m = HistoryArray a \<and> length (arrays d) \<le> a) \<and>
   prefixesData (fst (fst (item_invoke engine getTime iprops iiv (d, st)))) = prefixesData d \<and>
   suffixesData (fst (fst (item_invoke engine getTime iprops iiv (d, st)))) = suffixesData d \<and>
   phasesConfig (fst (fst (item_invoke engine getTime iprops iiv (d, st)))) = phasesConfig d \<and>
   phasePromptsMap (fst (fst (item_invoke engine getTime iprops iiv (d, st)))) = phasePromptsMap d \<and>
   take (length (arrays d)) (arrays (fst (fst (item_invoke engine getTime iprops iiv (d, st)))))
     = arrays d"
proof -
  have b: "fst (fst (builder_invoke props iv (d, s))) = d"
    by (cases iv) (simp_all split: prod.split)
  show ?thesis
  proof (cases "iiv = ItemRender")
    case True
    with b builder_invoke_no_mutation [of props iv d s] show ?thesis
      unfolding True item_invoke_render by simp
  next
    case False
    with b builder_invoke_no_mutation [of props iv d s]
      item_invoke_handlers [OF False, of engine getTime iprops d st] show ?thesis
      by simp
  qed
qed

theorem handlers_leave_props_data_unchanged_witness:
  "mutations (snd (builder_invoke (example_props (Resolves True))
        (PanelDeprecatePrefix ''p1'') (example_data, example_state))) = [] \<and>
   calls (snd (builder_invoke (example_props (Resolves True))
        (PanelDeprecatePrefix ''p1'') (example_data, example_state))) = [OnDeprecatePrefix ''p1''] \<and>
   mutations (snd (item_invoke insertion_engine example_getTime example_item_props ItemRender
        (example_data, example_item_state))) = [HistoryArray 11] \<and>
   length (arrays example_data) = 11 \<and>
   take 11 (arrays (fst (fst (item_invoke insertion_engine example_getTime example_item_props
        ItemRender (example_data, example_item_state))))) = arrays example_data"
proof -
  have len: "length (arrays example_data) = 11"
    by (simp add: example_data_def)
  have r: "snd (item_invoke insertion_engine example_getTime example_item_props ItemRender
        (example_data, example_item_state)) = [Mutate (HistoryArray 11)]"
    by (simp only: item_invoke_render len snd_conv)
  have b: "snd (builder_invoke (example_props (Resolves True)) (PanelDeprecatePrefix ''p1'')
        (example_data, example_state)) = [Call (OnDeprecatePrefix ''p1'')]"
    by (simp add: example_props_def call_if_present_def)
  show ?thesis
    using handlers_leave_props_data_unchanged [of "example_props (Resolves True)"
        "PanelDeprecatePrefix ''p1''" example_data example_state insertion_engine example_getTime
        example_item_props ItemRender example_item_state] len r b
    by (simp del: item_invoke.simps builder_invoke.simps)
qed

end
